theory Spec2Isabelle
  imports Main
begin

section \<open>The VQE runtime program client (qiskit\_nature/runtime/vqe\_program.py)\<close>

subsection \<open>Python values and exceptions\<close>

text \<open>
  The Python values the client handles without looking inside them. Strings, lists and
  numpy arrays keep their shape because the code compares, indexes or type-checks them.
  \<open>PObj mro label\<close> is an instance of a library class (a circuit, say) that the client
  only passes on: \<open>mro\<close> lists the names of its class and base classes, \<open>label\<close>
  tells instances apart; such an object is neither subscriptable nor callable.
  Equality of values is only ever taken against strings and lists of strings, where
  Python's \<open>==\<close> is structural.
\<close>

datatype pyval =
    PNone
  | PBool bool
  | PInt int
  | PStr string
  | PList "pyval list"
  | PArray "pyval list"
  | PObj "string list" string

text \<open>
  One constructor for each exception the code raises or lets through, named after its
  Python class and carrying what its message is built from. \<open>ExternalError\<close> stands for
  any other exception (a subclass of \<open>Exception\<close>) raised by code outside this
  repository.
\<close>

datatype error =
    NotImplementedError_optimizer
    \<comment> \<open>'Only SPSA and QN-SPSA are currently supported.'\<close>
  | ValueError_provider string
    \<comment> \<open>'The provider ... does not provide a runtime environment.'\<close>
  | ValueError_backend_not_set
    \<comment> \<open>'The backend has not been set.'\<close>
  | ValueError_provider_not_set
    \<comment> \<open>'The provider has not been set.'\<close>
  | ValueError_operator_type string
    \<comment> \<open>'Invalid type of the operator ... must be PauliSumOp, or castable to one.'\<close>
  | ValueError_unsupported_settings pyval "pyval set"
    \<comment> \<open>'The following settings are unsupported for the ... optimizer: ...'\<close>
  | ValueError_list_remove
    \<comment> \<open>'list.remove(x): x not in list', raised by \<open>list.remove\<close>\<close>
  | ValueError_unpack
    \<comment> \<open>wrong number of values in a tuple assignment\<close>
  | ValueError_fake string
    \<comment> \<open>the errors of the fake runtime of the tests\<close>
  | IndexError
  | KeyError string
  | TypeError_not_subscriptable
  | TypeError_not_callable
  | AttributeError string
  | IBMQNotAuthorizedError
  | ExternalError string

subsection \<open>Validation of the optimizer settings\<close>

text \<open>
  A settings dictionary is kept as the list of its items; only its keys are read.
\<close>

type_synonym settings = "(pyval \<times> pyval) list"

definition keys :: "settings \<Rightarrow> pyval list" where
  "keys settings = map fst settings"

text \<open>
  Python's \<open>list.remove(x)\<close>: drops the first item equal to \<open>x\<close> and raises
  \<open>ValueError\<close> when there is none. The source list is mutated in place; the model
  returns the new list.
\<close>

fun list_remove :: "'a list \<Rightarrow> 'a \<Rightarrow> error + 'a list" where
  "list_remove [] x = Inl ValueError_list_remove"
| "list_remove (y # ys) x =
     (if y = x then Inr ys
      else (case list_remove ys x of
              Inl e \<Rightarrow> Inl e
            | Inr zs \<Rightarrow> Inr (y # zs)))"

definition allowed_settings :: "pyval list" where
  "allowed_settings =
     [PStr ''maxiter'',
      PStr ''blocking'',
      PStr ''allowed_increase'',
      PStr ''trust_region'',
      PStr ''learning_rate'',
      PStr ''perturbation'',
      PStr ''resamplings'',
      PStr ''last_avg'',
      PStr ''second_order'',
      PStr ''hessian_delay'',
      PStr ''regularization'',
      PStr ''initial_hessian'']"

text \<open>
  \<open>_validate_optimizer_settings(name, settings)\<close> (the leading underscore is dropped).
  For \<open>'QN-SPSA'\<close> the source calls \<open>allowed_settings.remove\<close> with ONE argument, the
  two-element list \<open>['trust_region', 'second_order']\<close>.
\<close>

definition validate_optimizer_settings :: "pyval \<Rightarrow> settings \<Rightarrow> error + unit" where
  "validate_optimizer_settings name settings =
     (if name \<notin> set [PStr ''SPSA'', PStr ''QN-SPSA'']
      then Inl NotImplementedError_optimizer
      else
        (case (if name = PStr ''QN-SPSA''
               then list_remove allowed_settings
                      (PList [PStr ''trust_region'', PStr ''second_order''])
               else Inr allowed_settings) of
           Inl e \<Rightarrow> Inl e
         | Inr allowed \<Rightarrow>
             (let unsupported_args = set (keys settings) - set allowed
              in if card unsupported_args > 0
                 then Inl (ValueError_unsupported_settings name unsupported_args)
                 else Inr ())))"

subsection \<open>The objects the client talks to\<close>

text \<open>
  Providers, backends, operators and jobs are objects of other libraries. The client only
  reads attributes of them and calls methods on them, so each is modelled by what those
  reads and calls give: a value, or the exception they raise.
\<close>

type_synonym callback = "pyval list \<Rightarrow> error + pyval"

text \<open>
  The object a caller gives as \<open>callback\<close>: its truth value \<open>bool(callback)\<close> (true for
  every function; false for a callable object whose \<open>__bool__\<close> or \<open>__len__\<close> says so)
  and what calling it with arguments gives. Taking the truth value is assumed not to raise.
\<close>

datatype callable = Callable (truth_value: bool) (call: callback)

text \<open>
  An operator: the name of its type (\<open>type(operator)\<close>), whether
  \<open>isinstance(operator, PauliSumOp)\<close> holds, and what reading \<open>operator.primitive\<close>
  and \<open>operator.coeff\<close> gives.
\<close>

datatype operator =
  Operator (type_name: string) (is_PauliSumOp: bool)
    (get_primitive: "error + pyval") (get_coeff: "error + pyval")

text \<open>
  The two qiskit constructors the client calls, \<open>SparsePauliOp(...)\<close> and
  \<open>PauliSumOp(..., ...)\<close>: library code, taken as parameters.
\<close>

record qiskit =
  SparsePauliOp :: "pyval \<Rightarrow> error + pyval"
  PauliSumOp :: "pyval \<Rightarrow> pyval \<Rightarrow> error + operator"

text \<open>The \<open>inputs\<close> dictionary of the runtime call, one field for each of its keys.\<close>

record inputs =
  inputs_operator :: operator
  inputs_aux_operators :: pyval
  inputs_ansatz :: pyval
  inputs_optimizer :: pyval
  inputs_optimizer_params :: settings
  inputs_initial_point :: pyval
  inputs_shots :: pyval
  inputs_readout_error_mitigation :: pyval

text \<open>The \<open>options\<close> dictionary, with its one key \<open>'backend_name'\<close>.\<close>

record options =
  options_backend_name :: pyval

text \<open>The keyword arguments of \<open>runtime.run(program_id=, inputs=, options=, callback=)\<close>.\<close>

record run_args =
  arg_program_id :: pyval
  arg_inputs :: inputs
  arg_options :: options
  arg_callback :: "callback option"

text \<open>A job handle: what \<open>job.result()\<close> gives.\<close>

datatype job = Job (call_result: "error + pyval")

text \<open>The runtime service: what \<open>runtime.run(...)\<close> gives for its arguments.\<close>

datatype runtime = Runtime (call_run: "run_args \<Rightarrow> error + job")

text \<open>
  A provider: the text \<open>str(provider)\<close> and what reading \<open>provider.runtime\<close> gives
  (\<open>Inl (AttributeError ''runtime'')\<close> when the provider has no such attribute,
  \<open>Inl IBMQNotAuthorizedError\<close> for an IBMQ account that may not use the service).
\<close>

datatype provider = Provider (str_provider: string) (get_runtime: "error + runtime")

text \<open>A backend: what \<open>backend.name()\<close> gives.\<close>

datatype backend = Backend (call_name: "error + pyval")

text \<open>The calls that leave the client for the remote service, in the order made.\<close>

datatype remote_call = RunCall run_args | ResultCall job

subsection \<open>The configuration object\<close>

text \<open>
  The attributes of a \<open>VQEProgram\<close> instance: \<open>self_provider\<close> is \<open>self._provider\<close>,
  and so on. \<open>self_optimizer\<close> is the attribute \<open>_optimizer\<close>, which only the setter
  named \<open>optimizer\<close> creates. Each property getter returns its attribute.
\<close>

record vqe_program =
  self_program_name :: pyval
  self_provider :: "provider option"
  self_ansatz :: pyval
  self_optimizer_name :: pyval
  self_optimizer_settings :: settings
  self_backend :: "backend option"
  self_initial_point :: pyval
  self_shots :: pyval
  self_readout_error_mitigation :: pyval
  self_callback :: "callable option"
  self_optimizer :: "pyval option"

text \<open>
  A method is a function from the object to the value it returns or the exception it
  raises, paired with the object as the call leaves it.
\<close>

type_synonym 'a outcome = "(error + 'a) \<times> vqe_program"

text \<open>
  \<open>hasattr(provider, 'runtime')\<close>: Python reads the attribute, answers \<open>False\<close> on an
  \<open>AttributeError\<close> and lets every other exception through. \<open>None\<close> has no attribute
  \<open>runtime\<close>.
\<close>

definition getattr_runtime :: "provider option \<Rightarrow> error + runtime" where
  "getattr_runtime provider =
     (case provider of
        None \<Rightarrow> Inl (AttributeError ''runtime'')
      | Some p \<Rightarrow> get_runtime p)"

definition hasattr_runtime :: "provider option \<Rightarrow> error + bool" where
  "hasattr_runtime provider =
     (case getattr_runtime provider of
        Inr _ \<Rightarrow> Inr True
      | Inl e \<Rightarrow> (case e of AttributeError _ \<Rightarrow> Inr False | _ \<Rightarrow> Inl e))"

definition str_of :: "provider option \<Rightarrow> string" where
  "str_of provider = (case provider of None \<Rightarrow> ''None'' | Some p \<Rightarrow> str_provider p)"

text \<open>The setter of \<open>provider\<close>: the value of \<open>hasattr\<close> is thrown away.\<close>

definition set_provider :: "vqe_program \<Rightarrow> provider option \<Rightarrow> unit outcome" where
  "set_provider self provider =
     (case hasattr_runtime provider of
        Inl e \<Rightarrow>
          (if e = IBMQNotAuthorizedError
           then (Inl (ValueError_provider (str_of provider)), self)
           else (Inl e, self))
      | Inr _ \<Rightarrow> (Inr (), self\<lparr>self_provider := provider\<rparr>))"

text \<open>\<open>program_name\<close> is a property with a getter only: assigning to it raises.\<close>

definition set_program_name :: "vqe_program \<Rightarrow> pyval \<Rightarrow> unit outcome" where
  "set_program_name self v = (Inl (AttributeError ''program_name''), self)"

definition set_ansatz :: "vqe_program \<Rightarrow> pyval \<Rightarrow> unit outcome" where
  "set_ansatz self ansatz = (Inr (), self\<lparr>self_ansatz := ansatz\<rparr>)"

definition set_optimizer_name :: "vqe_program \<Rightarrow> pyval \<Rightarrow> unit outcome" where
  "set_optimizer_name self name =
     (if name \<notin> set [PStr ''SPSA'', PStr ''QN-SPSA'']
      then (Inl NotImplementedError_optimizer, self)
      else (Inr (), self\<lparr>self_optimizer_name := name\<rparr>))"

definition set_optimizer_settings :: "vqe_program \<Rightarrow> settings \<Rightarrow> unit outcome" where
  "set_optimizer_settings self settings = (Inr (), self\<lparr>self_optimizer_settings := settings\<rparr>)"

text \<open>
  The second function decorated with \<open>@optimizer_settings.setter\<close> is named
  \<open>optimizer\<close>: it makes a property \<open>optimizer\<close> whose setter stores \<open>_optimizer\<close>.
\<close>

definition set_optimizer :: "vqe_program \<Rightarrow> pyval \<Rightarrow> unit outcome" where
  "set_optimizer self optimizer = (Inr (), self\<lparr>self_optimizer := Some optimizer\<rparr>)"

definition set_backend :: "vqe_program \<Rightarrow> backend option \<Rightarrow> unit outcome" where
  "set_backend self backend = (Inr (), self\<lparr>self_backend := backend\<rparr>)"

definition set_initial_point :: "vqe_program \<Rightarrow> pyval \<Rightarrow> unit outcome" where
  "set_initial_point self initial_point = (Inr (), self\<lparr>self_initial_point := initial_point\<rparr>)"

definition set_shots :: "vqe_program \<Rightarrow> pyval \<Rightarrow> unit outcome" where
  "set_shots self shots = (Inr (), self\<lparr>self_shots := shots\<rparr>)"

definition set_readout_error_mitigation :: "vqe_program \<Rightarrow> pyval \<Rightarrow> unit outcome" where
  "set_readout_error_mitigation self readout_error_mitigation =
     (Inr (), self\<lparr>self_readout_error_mitigation := readout_error_mitigation\<rparr>)"

definition set_callback :: "vqe_program \<Rightarrow> callable option \<Rightarrow> unit outcome" where
  "set_callback self callback = (Inr (), self\<lparr>self_callback := callback\<rparr>)"

text \<open>
  \<open>__init__\<close>: the attributes are stored, then the provider (when one is given) and the
  optimizer name go through their setters. An exception of a setter leaves the
  constructor, and no object is made.
\<close>

definition init ::
  "pyval \<Rightarrow> pyval \<Rightarrow> settings option \<Rightarrow> pyval \<Rightarrow> provider option \<Rightarrow> backend option
     \<Rightarrow> pyval \<Rightarrow> pyval \<Rightarrow> callable option \<Rightarrow> error + vqe_program" where
  "init ansatz optimizer_name optimizer_settings initial_point provider backend shots
        readout_error_mitigation callback =
     (let optimizer_settings = (case optimizer_settings of None \<Rightarrow> [] | Some s \<Rightarrow> s);
          self = \<lparr>self_program_name = PStr ''vqe'',
                  self_provider = None,
                  self_ansatz = ansatz,
                  self_optimizer_name = PNone,
                  self_optimizer_settings = optimizer_settings,
                  self_backend = backend,
                  self_initial_point = initial_point,
                  self_shots = shots,
                  self_readout_error_mitigation = readout_error_mitigation,
                  self_callback = callback,
                  self_optimizer = None\<rparr>
      in case (if provider \<noteq> None then set_provider self provider else (Inr (), self)) of
           (Inl e, _) \<Rightarrow> Inl e
         | (Inr _, self) \<Rightarrow>
             (case set_optimizer_name self optimizer_name of
                (Inl e, _) \<Rightarrow> Inl e
              | (Inr _, self) \<Rightarrow> Inr self))"

subsection \<open>The callback wrapper\<close>

text \<open>
  \<open>data[i]\<close> for the data the service hands to its callback: a list or an array is
  indexed, a string gives its character, anything else is not subscriptable. The indices
  used are literals from 0 to 5.
\<close>

definition subscript :: "pyval \<Rightarrow> nat \<Rightarrow> error + pyval" where
  "subscript data i =
     (case data of
        PList xs \<Rightarrow> (if i < length xs then Inr (xs ! i) else Inl IndexError)
      | PArray xs \<Rightarrow> (if i < length xs then Inr (xs ! i) else Inl IndexError)
      | PStr s \<Rightarrow> (if i < length s then Inr (PStr [s ! i]) else Inl IndexError)
      | _ \<Rightarrow> Inl TypeError_not_subscriptable)"

text \<open>
  \<open>wrapped_callback(*args)\<close>, the closure \<open>_wrap_vqe_callback\<close> returns.
  \<open>_, data = args\<close> needs exactly two arguments. The closure reads \<open>self._callback\<close>
  when it is called.
\<close>

definition wrapped_callback :: "vqe_program \<Rightarrow> callback" where
  "wrapped_callback self args =
     (case args of
        [_, data] \<Rightarrow>
          (case subscript data 0 of Inl e \<Rightarrow> Inl e | Inr iteration_count \<Rightarrow>
           (case subscript data 1 of Inl e \<Rightarrow> Inl e | Inr params \<Rightarrow>
            (case subscript data 2 of Inl e \<Rightarrow> Inl e | Inr mean \<Rightarrow>
             (case subscript data 4 of Inl e \<Rightarrow> Inl e | Inr accepted \<Rightarrow>
              (case subscript data 5 of Inl e \<Rightarrow> Inl e | Inr metric \<Rightarrow>
               (case self_callback self of
                  None \<Rightarrow> Inl TypeError_not_callable
                | Some f \<Rightarrow> call f [iteration_count, params, mean, accepted, metric]))))))
      | _ \<Rightarrow> Inl ValueError_unpack)"

text \<open>
  \<open>_wrap_vqe_callback\<close>: the test \<open>if self._callback\<close> takes the truth value of the
  attribute, which is false for \<open>None\<close> and for a callable object that is false.
\<close>

definition wrap_vqe_callback :: "vqe_program \<Rightarrow> callback option" where
  "wrap_vqe_callback self =
     (if (case self_callback self of None \<Rightarrow> False | Some c \<Rightarrow> truth_value c)
      then Some (wrapped_callback self)
      else None)"

subsection \<open>The dispatch\<close>

text \<open>
  The body of the \<open>try\<close> in \<open>compute_minimum_eigenvalue\<close>:
  \<open>PauliSumOp(SparsePauliOp(operator.primitive), operator.coeff)\<close>, evaluated left to
  right.
\<close>

definition cast_operator :: "qiskit \<Rightarrow> operator \<Rightarrow> error + operator" where
  "cast_operator lib operator =
     (case get_primitive operator of Inl e \<Rightarrow> Inl e | Inr p \<Rightarrow>
      (case SparsePauliOp lib p of Inl e \<Rightarrow> Inl e | Inr primitive \<Rightarrow>
       (case get_coeff operator of Inl e \<Rightarrow> Inl e | Inr c \<Rightarrow>
          PauliSumOp lib primitive c)))"

text \<open>
  \<open>compute_minimum_eigenvalue(self, operator, aux_operators)\<close>. The result is what the
  call returns or raises, the object as the call leaves it, and the calls made to the
  remote service. Library code (\<open>backend.name()\<close>, the runtime service, the job) does
  not get hold of \<open>self\<close> here, so it is taken not to assign to its attributes.
\<close>

definition compute_minimum_eigenvalue ::
  "qiskit \<Rightarrow> vqe_program \<Rightarrow> operator \<Rightarrow> pyval
     \<Rightarrow> (error + pyval) \<times> vqe_program \<times> remote_call list" where
  "compute_minimum_eigenvalue lib self operator aux_operators =
     (if self_backend self = None then (Inl ValueError_backend_not_set, self, [])
      else if self_provider self = None then (Inl ValueError_provider_not_set, self, [])
      else
        (case (if \<not> is_PauliSumOp operator
               then (case cast_operator lib operator of
                       Inl exc \<Rightarrow> Inl (ValueError_operator_type (type_name operator))
                     | Inr converted \<Rightarrow> Inr converted)
               else Inr operator) of
           Inl e \<Rightarrow> (Inl e, self, [])
         | Inr operator \<Rightarrow>
        (case validate_optimizer_settings (self_optimizer_name self)
                (self_optimizer_settings self) of
           Inl e \<Rightarrow> (Inl e, self, [])
         | Inr _ \<Rightarrow>
        (let initial_point =
               (if self_initial_point self = PNone then PStr ''random''
                else self_initial_point self);
             inputs = \<lparr>inputs_operator = operator,
                       inputs_aux_operators = aux_operators,
                       inputs_ansatz = self_ansatz self,
                       inputs_optimizer = self_optimizer_name self,
                       inputs_optimizer_params = self_optimizer_settings self,
                       inputs_initial_point = initial_point,
                       inputs_shots = self_shots self,
                       inputs_readout_error_mitigation = self_readout_error_mitigation self\<rparr>
         in
        (case call_name (the (self_backend self)) of
           Inl e \<Rightarrow> (Inl e, self, [])
         | Inr backend_name \<Rightarrow>
        (let options = \<lparr>options_backend_name = backend_name\<rparr>
         in
        (case getattr_runtime (self_provider self) of
           Inl e \<Rightarrow> (Inl e, self, [])
         | Inr runtime \<Rightarrow>
        (let args = \<lparr>arg_program_id = self_program_name self,
                     arg_inputs = inputs,
                     arg_options = options,
                     arg_callback = wrap_vqe_callback self\<rparr>
         in
        (case call_run runtime args of
           Inl e \<Rightarrow> (Inl e, self, [RunCall args])
         | Inr job \<Rightarrow>
        (case call_result job of
           Inl e \<Rightarrow> (Inl e, self, [RunCall args, ResultCall job])
         | Inr result \<Rightarrow> (Inr result, self, [RunCall args, ResultCall job])))))))))))"

text \<open>
  For stating what is sent: the keyword arguments \<open>compute_minimum_eigenvalue\<close> hands
  to \<open>runtime.run\<close>, written out once for the operator after normalisation and the
  name the backend gave (lemma \<open>cme_after_checks\<close> below ties them to the dispatch).
\<close>

definition dispatch_args :: "vqe_program \<Rightarrow> operator \<Rightarrow> pyval \<Rightarrow> pyval \<Rightarrow> run_args" where
  "dispatch_args self operator aux_operators backend_name =
     \<lparr>arg_program_id = self_program_name self,
      arg_inputs =
        \<lparr>inputs_operator = operator,
         inputs_aux_operators = aux_operators,
         inputs_ansatz = self_ansatz self,
         inputs_optimizer = self_optimizer_name self,
         inputs_optimizer_params = self_optimizer_settings self,
         inputs_initial_point =
           (if self_initial_point self = PNone then PStr ''random''
            else self_initial_point self),
         inputs_shots = self_shots self,
         inputs_readout_error_mitigation = self_readout_error_mitigation self\<rparr>,
      arg_options = \<lparr>options_backend_name = backend_name\<rparr>,
      arg_callback = wrap_vqe_callback self\<rparr>"

subsection \<open>The public operations\<close>

text \<open>
  Everything a caller can do to a constructed object: assign to a property, or dispatch.
  \<open>apply_op\<close> gives the object after the operation, whether it returned or raised.
\<close>

datatype op =
    SetProvider "provider option"
  | SetProgramName pyval
  | SetAnsatz pyval
  | SetOptimizerName pyval
  | SetOptimizerSettings settings
  | SetOptimizer pyval
  | SetBackend "backend option"
  | SetInitialPoint pyval
  | SetShots pyval
  | SetReadoutErrorMitigation pyval
  | SetCallback "callable option"
  | ComputeMinimumEigenvalue operator pyval

fun apply_op :: "qiskit \<Rightarrow> vqe_program \<Rightarrow> op \<Rightarrow> vqe_program" where
  "apply_op lib self (SetProvider p) = snd (set_provider self p)"
| "apply_op lib self (SetProgramName v) = snd (set_program_name self v)"
| "apply_op lib self (SetAnsatz v) = snd (set_ansatz self v)"
| "apply_op lib self (SetOptimizerName v) = snd (set_optimizer_name self v)"
| "apply_op lib self (SetOptimizerSettings s) = snd (set_optimizer_settings self s)"
| "apply_op lib self (SetOptimizer v) = snd (set_optimizer self v)"
| "apply_op lib self (SetBackend b) = snd (set_backend self b)"
| "apply_op lib self (SetInitialPoint v) = snd (set_initial_point self v)"
| "apply_op lib self (SetShots v) = snd (set_shots self v)"
| "apply_op lib self (SetReadoutErrorMitigation v) = snd (set_readout_error_mitigation self v)"
| "apply_op lib self (SetCallback c) = snd (set_callback self c)"
| "apply_op lib self (ComputeMinimumEigenvalue operator aux_operators) =
     fst (snd (compute_minimum_eigenvalue lib self operator aux_operators))"

fun apply_ops :: "qiskit \<Rightarrow> vqe_program \<Rightarrow> op list \<Rightarrow> vqe_program" where
  "apply_ops lib self [] = self"
| "apply_ops lib self (x # xs) = apply_ops lib (apply_op lib self x) xs"

subsection \<open>The fake runtime of the tests (test/runtime/fake\_vqeruntime.py)\<close>

text \<open>\<open>isinstance\<close> for the types the fake runtime checks its arguments against.\<close>

definition is_str :: "pyval \<Rightarrow> bool" where
  "is_str v = (case v of PStr _ \<Rightarrow> True | _ \<Rightarrow> False)"

definition is_list :: "pyval \<Rightarrow> bool" where
  "is_list v = (case v of PList _ \<Rightarrow> True | _ \<Rightarrow> False)"

definition is_ndarray :: "pyval \<Rightarrow> bool" where
  "is_ndarray v = (case v of PArray _ \<Rightarrow> True | _ \<Rightarrow> False)"

definition is_bool :: "pyval \<Rightarrow> bool" where
  "is_bool v = (case v of PBool _ \<Rightarrow> True | _ \<Rightarrow> False)"

text \<open>In Python \<open>bool\<close> is a subclass of \<open>int\<close>.\<close>

definition is_int :: "pyval \<Rightarrow> bool" where
  "is_int v = (case v of PInt _ \<Rightarrow> True | PBool _ \<Rightarrow> True | _ \<Rightarrow> False)"

definition is_instance_of :: "pyval \<Rightarrow> string \<Rightarrow> bool" where
  "is_instance_of v cls = (case v of PObj mro _ \<Rightarrow> cls \<in> set mro | _ \<Rightarrow> False)"

text \<open>\<open>FakeJob\<close>: \<open>result()\<close> returns \<open>None\<close>.\<close>

definition FakeJob :: job where
  "FakeJob = Job (Inr PNone)"

text \<open>
  The loop over \<open>inputs.items()\<close>: the dictionary the client builds has its eight keys
  in the order of the record, and the first value of a wrong type raises.
  \<open>optimizer_params\<close> is a dictionary by its type here.
\<close>

definition fake_check_inputs :: "inputs \<Rightarrow> error + unit" where
  "fake_check_inputs inputs =
     (if \<not> is_PauliSumOp (inputs_operator inputs) then Inl (ValueError_fake ''operator'')
      else if \<not> (is_list (inputs_aux_operators inputs) \<or> inputs_aux_operators inputs = PNone)
        then Inl (ValueError_fake ''aux_operators'')
      else if \<not> is_instance_of (inputs_ansatz inputs) ''QuantumCircuit''
        then Inl (ValueError_fake ''ansatz'')
      else if \<not> is_str (inputs_optimizer inputs) then Inl (ValueError_fake ''optimizer'')
      else if \<not> (is_ndarray (inputs_initial_point inputs) \<or> is_str (inputs_initial_point inputs))
        then Inl (ValueError_fake ''initial_point'')
      else if \<not> is_int (inputs_shots inputs) then Inl (ValueError_fake ''shots'')
      else if \<not> is_bool (inputs_readout_error_mitigation inputs)
        then Inl (ValueError_fake ''readout_error_mitigation'')
      else Inr ())"

text \<open>
  The loop over \<open>options.items()\<close>: the message of its error looks \<open>'backend_name'\<close> up
  in \<open>allowed_inputs\<close>, which has no such key.
\<close>

definition fake_check_options :: "options \<Rightarrow> error + unit" where
  "fake_check_options options =
     (if \<not> is_str (options_backend_name options) then Inl (KeyError ''backend_name'')
      else Inr ())"

definition fake_job_id :: pyval where
  "fake_job_id = PStr ''c919jdjlwinoir1a''"

text \<open>
  \<open>[3, np.arange(10), 1.3]\<close>: three items. The float is carried as an object of
  class \<open>float\<close>, since nothing computes with it.
\<close>

definition fake_data :: pyval where
  "fake_data =
     PList [PInt 3,
            PArray (map PInt [0, 1, 2, 3, 4, 5, 6, 7, 8, 9]),
            PObj [''float'', ''object''] ''1.3'']"

text \<open>\<open>FakeVQERuntime.run(program_id, inputs, options, callback=None)\<close>.\<close>

definition FakeVQERuntime_run :: "run_args \<Rightarrow> error + job" where
  "FakeVQERuntime_run args =
     (if arg_program_id args \<noteq> PStr ''vqe'' then Inl (ValueError_fake ''program_id is not vqe.'')
      else
        (case fake_check_inputs (arg_inputs args) of
           Inl e \<Rightarrow> Inl e
         | Inr _ \<Rightarrow>
        (case fake_check_options (arg_options args) of
           Inl e \<Rightarrow> Inl e
         | Inr _ \<Rightarrow>
        (case arg_callback args of
           None \<Rightarrow> Inr FakeJob
         | Some callback \<Rightarrow>
             (case callback [fake_job_id, fake_data] of
                Inl exc \<Rightarrow> Inl (ValueError_fake ''Callback failed'')
              | Inr _ \<Rightarrow> Inr FakeJob)))))"

text \<open>\<open>FakeRuntimeProvider\<close>: its property \<open>runtime\<close> returns a \<open>FakeVQERuntime\<close>.\<close>

definition FakeRuntimeProvider :: provider where
  "FakeRuntimeProvider = Provider ''FakeRuntimeProvider'' (Inr (Runtime FakeVQERuntime_run))"

subsection \<open>The standard use case of the tests (test/runtime/test\_vqeprogram.py)\<close>

text \<open>
  The objects of \<open>test_standard_case\<close>: the circuit \<open>RealAmplitudes(3)\<close>, the operator
  \<open>Z ^ I ^ Z\<close> (a \<open>PauliOp\<close> with a primitive and the coefficient 1.0), an initial point
  of twelve numbers (written as integers: only its being an array is read), and the
  simulator backend with its name.
\<close>

definition test_circuit :: pyval where
  "test_circuit =
     PObj [''RealAmplitudes'', ''TwoLocal'', ''NLocal'', ''BlueprintCircuit'',
           ''QuantumCircuit'', ''object''] ''RealAmplitudes(3)''"

definition test_operator :: operator where
  "test_operator =
     Operator ''PauliOp'' False
       (Inr (PObj [''Pauli'', ''object''] ''ZIZ''))
       (Inr (PObj [''float'', ''object''] ''1.0''))"

definition test_initial_point :: pyval where
  "test_initial_point = PArray (map PInt [0, 1, 2, 3, 4, 5, 6, 7, 8, 9, 10, 11])"

definition test_settings :: settings where
  "test_settings = [(PStr ''maxiter'', PInt 100)]"

definition test_backend :: backend where
  "test_backend = Backend (Inr (PStr ''aer_simulator''))"

text \<open>
  A stand-in for the two qiskit constructors on the values above:
  \<open>SparsePauliOp\<close> accepts a \<open>Pauli\<close> and rejects everything else, \<open>PauliSumOp\<close> builds
  an operator of that type.
\<close>

definition test_lib :: qiskit where
  "test_lib =
     \<lparr>SparsePauliOp =
        (\<lambda>p. if is_instance_of p ''Pauli''
             then Inr (PObj [''SparsePauliOp'', ''object''] ''sparse'')
             else Inl (ExternalError ''QiskitError'')),
      PauliSumOp =
        (\<lambda>primitive c. Inr (Operator ''PauliSumOp'' True (Inr primitive) (Inr c)))\<rparr>"

text \<open>
  The object \<open>test_standard_case\<close> constructs (lemma \<open>init_test\<close> below): the
  defaults for the shots, the mitigation flag and the callback.
\<close>

definition test_vqe :: vqe_program where
  "test_vqe =
     \<lparr>self_program_name = PStr ''vqe'',
      self_provider = Some FakeRuntimeProvider,
      self_ansatz = test_circuit,
      self_optimizer_name = PStr ''SPSA'',
      self_optimizer_settings = test_settings,
      self_backend = Some test_backend,
      self_initial_point = test_initial_point,
      self_shots = PInt 1024,
      self_readout_error_mitigation = PBool True,
      self_callback = None,
      self_optimizer = None\<rparr>"

text \<open>The operator the dispatch sends for \<open>test_operator\<close>.\<close>

definition test_converted :: operator where
  "test_converted =
     Operator ''PauliSumOp'' True
       (Inr (PObj [''SparsePauliOp'', ''object''] ''sparse''))
       (Inr (PObj [''float'', ''object''] ''1.0''))"

text \<open>A caller's callback that returns the arguments it was called with.\<close>

definition recording_callback :: callable where
  "recording_callback = Callable True (\<lambda>args. Inr (PList args))"

text \<open>An object that is no operator: it has neither \<open>primitive\<close> nor \<open>coeff\<close>.\<close>

definition test_not_an_operator :: operator where
  "test_not_an_operator =
     Operator ''int'' False (Inl (AttributeError ''primitive'')) (Inl (AttributeError ''coeff''))"

section \<open>Properties\<close>

subsection \<open>Settings validation\<close>

lemma remove_pair_from_allowed:
  "list_remove allowed_settings (PList [PStr ''trust_region'', PStr ''second_order''])
     = Inl ValueError_list_remove"
  by (simp add: allowed_settings_def)

text \<open>
  For \<open>'SPSA'\<close> the validation does what is asked of it: it raises exactly when a key
  lies outside the twelve allowed names, and the error carries exactly those keys.
\<close>

lemma validate_SPSA:
  "validate_optimizer_settings (PStr ''SPSA'') settings =
     (if set (keys settings) \<subseteq> set allowed_settings then Inr ()
      else Inl (ValueError_unsupported_settings (PStr ''SPSA'')
                  (set (keys settings) - set allowed_settings)))"
  by (auto simp: validate_optimizer_settings_def Let_def card_gt_0_iff)

text \<open>
  Claim C1. Validation of the settings should raise exactly when a key lies outside the
  optimizer's allow-list and, for \<open>'QN-SPSA'\<close> with only allowed keys, succeed. The code
  does not: for \<open>'QN-SPSA'\<close> the single-argument \<open>remove\<close> looks for an item equal to
  the list \<open>['trust_region', 'second_order']\<close>, finds none among the twelve strings and
  raises \<open>ValueError\<close>, whatever the settings are (the empty dictionary included).
\<close>

theorem validate_QN_SPSA_always_raises:
  "validate_optimizer_settings (PStr ''QN-SPSA'') settings = Inl ValueError_list_remove"
  by (simp add: validate_optimizer_settings_def remove_pair_from_allowed)

subsection \<open>The stages of the dispatch\<close>

text \<open>
  Once the backend and the provider are set, the operator is normalised and the settings
  are valid, the dispatch asks the backend for its name, reads the provider's runtime
  service, calls \<open>run\<close> once and then \<open>result\<close> on the job.
\<close>

lemma cme_after_checks:
  assumes b: "self_backend self = Some b"
    and p: "self_provider self = Some p"
    and n: "(is_PauliSumOp operator \<and> op' = operator) \<or>
            (\<not> is_PauliSumOp operator \<and> cast_operator lib operator = Inr op')"
    and v: "validate_optimizer_settings (self_optimizer_name self)
              (self_optimizer_settings self) = Inr ()"
  shows "compute_minimum_eigenvalue lib self operator aux_operators =
     (case call_name b of
        Inl e \<Rightarrow> (Inl e, self, [])
      | Inr backend_name \<Rightarrow>
     (case get_runtime p of
        Inl e \<Rightarrow> (Inl e, self, [])
      | Inr runtime \<Rightarrow>
     (case call_run runtime (dispatch_args self op' aux_operators backend_name) of
        Inl e \<Rightarrow>
          (Inl e, self, [RunCall (dispatch_args self op' aux_operators backend_name)])
      | Inr job \<Rightarrow>
          (call_result job, self,
           [RunCall (dispatch_args self op' aux_operators backend_name),
            ResultCall job]))))"
proof -
  have norm: "(if \<not> is_PauliSumOp operator
               then (case cast_operator lib operator of
                       Inl exc \<Rightarrow> Inl (ValueError_operator_type (type_name operator))
                     | Inr converted \<Rightarrow> Inr converted)
               else Inr operator) = Inr op'"
    using n by auto
  have g: "getattr_runtime (Some p) = get_runtime p"
    by (simp add: getattr_runtime_def)
  show ?thesis
    unfolding compute_minimum_eigenvalue_def norm dispatch_args_def
    by (simp add: b p v g Let_def split: sum.split)
qed

lemma cme_backend_unset:
  "self_backend self = None \<Longrightarrow>
   compute_minimum_eigenvalue lib self operator aux_operators
     = (Inl ValueError_backend_not_set, self, [])"
  by (simp add: compute_minimum_eigenvalue_def)

lemma cme_provider_unset:
  "self_backend self \<noteq> None \<Longrightarrow> self_provider self = None \<Longrightarrow>
   compute_minimum_eigenvalue lib self operator aux_operators
     = (Inl ValueError_provider_not_set, self, [])"
  by (simp add: compute_minimum_eigenvalue_def)

lemma cme_cast_fails:
  assumes "self_backend self = Some b" and "self_provider self = Some p"
    and "\<not> is_PauliSumOp operator" and "cast_operator lib operator = Inl exc"
  shows "compute_minimum_eigenvalue lib self operator aux_operators
     = (Inl (ValueError_operator_type (type_name operator)), self, [])"
  using assms by (simp add: compute_minimum_eigenvalue_def)

lemma cme_validation_fails:
  assumes "self_backend self = Some b" and "self_provider self = Some p"
    and n: "(is_PauliSumOp operator \<and> op' = operator) \<or>
            (\<not> is_PauliSumOp operator \<and> cast_operator lib operator = Inr op')"
    and "validate_optimizer_settings (self_optimizer_name self)
              (self_optimizer_settings self) = Inl e"
  shows "compute_minimum_eigenvalue lib self operator aux_operators = (Inl e, self, [])"
proof -
  have norm: "(if \<not> is_PauliSumOp operator
               then (case cast_operator lib operator of
                       Inl exc \<Rightarrow> Inl (ValueError_operator_type (type_name operator))
                     | Inr converted \<Rightarrow> Inr converted)
               else Inr operator) = Inr op'"
    using n by auto
  show ?thesis
    unfolding compute_minimum_eigenvalue_def norm
    using assms(1,2,4) by simp
qed

text \<open>Every dispatch ends in one of five ways.\<close>

lemma cme_stages:
  obtains
    (backend_unset) "self_backend self = None"
  | (provider_unset) "self_backend self \<noteq> None" "self_provider self = None"
  | (cast_fails) b p exc where "self_backend self = Some b" "self_provider self = Some p"
      "\<not> is_PauliSumOp operator" "cast_operator lib operator = Inl exc"
  | (validation_fails) b p op' e where "self_backend self = Some b" "self_provider self = Some p"
      "(is_PauliSumOp operator \<and> op' = operator) \<or>
       (\<not> is_PauliSumOp operator \<and> cast_operator lib operator = Inr op')"
      "validate_optimizer_settings (self_optimizer_name self)
         (self_optimizer_settings self) = Inl e"
  | (checks_pass) b p op' where "self_backend self = Some b" "self_provider self = Some p"
      "(is_PauliSumOp operator \<and> op' = operator) \<or>
       (\<not> is_PauliSumOp operator \<and> cast_operator lib operator = Inr op')"
      "validate_optimizer_settings (self_optimizer_name self)
         (self_optimizer_settings self) = Inr ()"
proof (cases "self_backend self")
  case None
  then show ?thesis by (rule backend_unset)
next
  case b: (Some b)
  show ?thesis
  proof (cases "self_provider self")
    case None
    with b show ?thesis by (intro provider_unset) simp_all
  next
    case p: (Some p)
    have "(\<exists>exc. \<not> is_PauliSumOp operator \<and> cast_operator lib operator = Inl exc) \<or>
          (\<exists>op'. (is_PauliSumOp operator \<and> op' = operator) \<or>
             (\<not> is_PauliSumOp operator \<and> cast_operator lib operator = Inr op'))"
      by (cases "cast_operator lib operator") auto
    then show ?thesis
    proof
      assume "\<exists>exc. \<not> is_PauliSumOp operator \<and> cast_operator lib operator = Inl exc"
      then obtain exc where "\<not> is_PauliSumOp operator" "cast_operator lib operator = Inl exc"
        by blast
      with b p show ?thesis by (intro cast_fails) simp_all
    next
      assume "\<exists>op'. (is_PauliSumOp operator \<and> op' = operator) \<or>
             (\<not> is_PauliSumOp operator \<and> cast_operator lib operator = Inr op')"
      then obtain op' where n: "(is_PauliSumOp operator \<and> op' = operator) \<or>
             (\<not> is_PauliSumOp operator \<and> cast_operator lib operator = Inr op')"
        by blast
      show ?thesis
      proof (cases "validate_optimizer_settings (self_optimizer_name self)
                      (self_optimizer_settings self)")
        case (Inl e)
        with b p n show ?thesis by (intro validation_fails) simp_all
      next
        case (Inr u)
        with b p n show ?thesis by (intro checks_pass) simp_all
      qed
    qed
  qed
qed

lemma dispatch_frame:
  "fst (snd (compute_minimum_eigenvalue lib self operator aux_operators)) = self"
proof (cases rule: cme_stages [where self = self and operator = operator and lib = lib])
  case backend_unset
  then show ?thesis by (simp add: cme_backend_unset)
next
  case provider_unset
  then show ?thesis by (simp add: cme_provider_unset)
next
  case (cast_fails b p exc)
  then show ?thesis by (simp add: cme_cast_fails)
next
  case (validation_fails b p op' e)
  then show ?thesis by (simp add: cme_validation_fails)
next
  case (checks_pass b p op')
  then show ?thesis by (simp add: cme_after_checks split: sum.split)
qed


subsection \<open>The standard use case, evaluated\<close>

lemma init_test:
  "init test_circuit (PStr ''SPSA'') (Some test_settings) test_initial_point
     (Some FakeRuntimeProvider) (Some test_backend) (PInt 1024) (PBool True) None
   = Inr test_vqe"
  by (simp add: init_def set_provider_def hasattr_runtime_def getattr_runtime_def
      FakeRuntimeProvider_def set_optimizer_name_def test_vqe_def)

lemma validate_test_settings:
  "validate_optimizer_settings (PStr ''SPSA'') test_settings = Inr ()"
  by (simp add: validate_SPSA keys_def test_settings_def allowed_settings_def)

lemma cast_test_operator: "cast_operator test_lib test_operator = Inr test_converted"
  by (simp add: cast_operator_def test_lib_def test_operator_def is_instance_of_def
      test_converted_def)

lemma fake_run_test_args:
  assumes "ip = test_initial_point \<or> ip = PNone"
  shows "FakeVQERuntime_run
           (dispatch_args (test_vqe\<lparr>self_initial_point := ip\<rparr>) test_converted PNone
              (PStr ''aer_simulator''))
         = Inr FakeJob"
  using assms
  by (auto simp: FakeVQERuntime_run_def dispatch_args_def test_vqe_def fake_check_inputs_def
      fake_check_options_def test_converted_def test_circuit_def test_initial_point_def
      is_list_def is_str_def is_ndarray_def is_int_def is_bool_def is_instance_of_def
      wrap_vqe_callback_def)

text \<open>
  The dispatch of the standard use case, with the operator of the test or an operator
  that is a \<open>PauliSumOp\<close> already, and with the initial point of the test or none: one
  call of the fake runtime, whose job returns \<open>None\<close>.
\<close>

lemma test_dispatch:
  assumes o: "operator = test_operator \<or> operator = test_converted"
    and i: "ip = test_initial_point \<or> ip = PNone"
  shows "compute_minimum_eigenvalue test_lib (test_vqe\<lparr>self_initial_point := ip\<rparr>)
           operator PNone
   = (Inr PNone, test_vqe\<lparr>self_initial_point := ip\<rparr>,
      [RunCall (dispatch_args (test_vqe\<lparr>self_initial_point := ip\<rparr>) test_converted PNone
                  (PStr ''aer_simulator'')),
       ResultCall FakeJob])"
proof -
  let ?self = "test_vqe\<lparr>self_initial_point := ip\<rparr>"
  have b: "self_backend ?self = Some test_backend"
    and p: "self_provider ?self = Some FakeRuntimeProvider"
    by (simp_all add: test_vqe_def)
  have n: "(is_PauliSumOp operator \<and> test_converted = operator) \<or>
           (\<not> is_PauliSumOp operator \<and> cast_operator test_lib operator = Inr test_converted)"
    using o cast_test_operator by (auto simp: test_operator_def test_converted_def)
  have v: "validate_optimizer_settings (self_optimizer_name ?self)
             (self_optimizer_settings ?self) = Inr ()"
    using validate_test_settings by (simp add: test_vqe_def)
  have nm: "call_name test_backend = Inr (PStr ''aer_simulator'')"
    by (simp add: test_backend_def)
  have rt: "get_runtime FakeRuntimeProvider = Inr (Runtime FakeVQERuntime_run)"
    by (simp add: FakeRuntimeProvider_def)
  have r: "call_result FakeJob = Inr PNone"
    by (simp add: FakeJob_def)
  show ?thesis
    unfolding cme_after_checks [OF b p n v] nm rt
    by (simp add: fake_run_test_args [OF i] r)
qed


subsection \<open>The program name\<close>

lemma apply_op_program_name:
  "self_program_name (apply_op lib self x) = self_program_name self"
proof (cases x)
  case (SetProvider p)
  then show ?thesis
    by (simp add: set_provider_def split: sum.splits)
next
  case (ComputeMinimumEigenvalue operator aux_operators)
  then show ?thesis by (simp add: dispatch_frame)
qed (simp_all add: set_program_name_def set_ansatz_def set_optimizer_name_def
      set_optimizer_settings_def set_optimizer_def set_backend_def set_initial_point_def
      set_shots_def set_readout_error_mitigation_def set_callback_def)

lemma apply_ops_program_name:
  "self_program_name (apply_ops lib self xs) = self_program_name self"
  by (induction xs arbitrary: self) (simp_all add: apply_op_program_name)

lemma init_program_name:
  "init a n st ip pr be sh rem cb = Inr s0 \<Longrightarrow> self_program_name s0 = PStr ''vqe''"
  by (auto simp: init_def Let_def set_provider_def set_optimizer_name_def
      split: if_splits sum.splits prod.splits)


text \<open>
  Claim C9. The program name of an instance is \<open>'vqe'\<close> after construction and stays so
  under every sequence of public operations; assigning to the property \<open>program_name\<close>
  raises, since it has a getter only.
\<close>

theorem program_name_invariant:
  "init a n st ip pr be sh rem cb = Inr s0 \<Longrightarrow>
     self_program_name s0 = PStr ''vqe'' \<and>
     self_program_name (apply_ops lib s0 ops) = PStr ''vqe'' \<and>
     set_program_name (apply_ops lib s0 ops) v
       = (Inl (AttributeError ''program_name''), apply_ops lib s0 ops)"
  by (simp add: apply_ops_program_name init_program_name set_program_name_def)

theorem program_name_invariant_witness:
  "init test_circuit (PStr ''SPSA'') (Some test_settings) test_initial_point
     (Some FakeRuntimeProvider) (Some test_backend) (PInt 1024) (PBool True) None
     = Inr test_vqe \<and>
   self_program_name test_vqe = PStr ''vqe'' \<and>
   self_program_name
     (apply_ops test_lib test_vqe
        [SetShots (PInt 100), SetProgramName (PStr ''other''),
         SetOptimizerName (PStr ''ADAM''), SetOptimizerName (PStr ''QN-SPSA''),
         ComputeMinimumEigenvalue test_operator PNone]) = PStr ''vqe''"
  using program_name_invariant [OF init_test, of test_lib
      "[SetShots (PInt 100), SetProgramName (PStr ''other''),
        SetOptimizerName (PStr ''ADAM''), SetOptimizerName (PStr ''QN-SPSA''),
        ComputeMinimumEigenvalue test_operator PNone]"]
    init_test
  by simp


subsection \<open>The dispatch and the configuration\<close>

text \<open>
  Claim C10. The dispatch never changes the configuration object: whether it returns a
  result or raises (backend or provider missing, operator not convertible, settings
  rejected, an error of the backend, the provider, the runtime service or the job), the
  object after the call equals the object before it, attribute for attribute. The
  normalised operator and the value \<open>'random'\<close> are local to the call.
\<close>

theorem dispatch_leaves_configuration_unchanged:
  "fst (snd (compute_minimum_eigenvalue lib self operator aux_operators)) = self"
  by (rule dispatch_frame)


text \<open>
  Claim C5. With the backend unset the dispatch raises the error that says so, and with
  the provider unset it raises a configuration error too (the one for the backend when
  that is unset as well, the one for the provider otherwise); in both cases no call to
  the remote service has been made.
\<close>

theorem dispatch_requires_backend_and_provider:
  "(self_backend self = None \<longrightarrow>
      compute_minimum_eigenvalue lib self operator aux_operators
        = (Inl ValueError_backend_not_set, self, [])) \<and>
   (self_provider self = None \<longrightarrow>
      compute_minimum_eigenvalue lib self operator aux_operators
        = (Inl (if self_backend self = None then ValueError_backend_not_set
                else ValueError_provider_not_set), self, []))"
  by (simp add: compute_minimum_eigenvalue_def)

theorem dispatch_requires_backend_and_provider_witness:
  "self_backend (test_vqe\<lparr>self_backend := None\<rparr>) = None \<and>
   compute_minimum_eigenvalue test_lib (test_vqe\<lparr>self_backend := None\<rparr>) test_operator PNone
     = (Inl ValueError_backend_not_set, test_vqe\<lparr>self_backend := None\<rparr>, []) \<and>
   self_provider (test_vqe\<lparr>self_provider := None\<rparr>) = None \<and>
   compute_minimum_eigenvalue test_lib (test_vqe\<lparr>self_provider := None\<rparr>) test_operator PNone
     = (Inl ValueError_provider_not_set, test_vqe\<lparr>self_provider := None\<rparr>, [])"
  using dispatch_requires_backend_and_provider
      [of "test_vqe\<lparr>self_backend := None\<rparr>" test_lib test_operator PNone]
    dispatch_requires_backend_and_provider
      [of "test_vqe\<lparr>self_provider := None\<rparr>" test_lib test_operator PNone]
  by (simp add: test_vqe_def)

subsection \<open>The callback wrapper\<close>

lemma subscript_list:
  "subscript (PList xs) i = (if i < length xs then Inr (xs ! i) else Inl IndexError)"
  by (simp add: subscript_def)

text \<open>
  Claim C2. The wrapped callback should hand the caller's callback four values: the
  evaluation count, the parameters, the mean and the standard deviation, as the
  docstring of \<open>__init__\<close> and the type of \<open>callback\<close> say. The code does not: from
  data of six fields it calls the caller's callback with FIVE values, the fields 0, 1, 2,
  4 and 5 (count, parameters, mean, \<open>accepted\<close>, \<open>metric\<close>); no standard deviation is
  among them (the line for it is commented out in the source).
\<close>

theorem wrapped_callback_passes_five_values:
  "wrapped_callback (self\<lparr>self_callback := Some (Callable t f)\<rparr>)
     [job_id, PList [iteration_count, params, mean, third, accepted, metric]]
   = f [iteration_count, params, mean, accepted, metric]"
  by (simp add: wrapped_callback_def subscript_list)

text \<open>
  The same on values: a callback that returns its arguments shows the five it got. Data
  of five fields or fewer, the three fields of the fake runtime among them, make the
  wrapper raise \<open>IndexError\<close> before it reaches the caller's callback, and the fake
  runtime turns that into \<open>ValueError('Callback failed')\<close>.
\<close>

lemma wrapped_callback_recorded:
  "wrapped_callback (test_vqe\<lparr>self_callback := Some recording_callback\<rparr>)
     [fake_job_id, PList [PInt 3, PArray [], PInt 1, PInt 0, PBool True, PInt 7]]
   = Inr (PList [PInt 3, PArray [], PInt 1, PBool True, PInt 7])"
  by (simp add: wrapped_callback_def subscript_list recording_callback_def)

lemma wrapped_callback_five_fields:
  "wrapped_callback self [job_id, PList [iteration_count, params, mean, a, b]]
   = Inl IndexError"
  by (simp add: wrapped_callback_def subscript_list)

lemma wrapped_callback_fake_data:
  "wrapped_callback self [fake_job_id, fake_data] = Inl IndexError"
  by (simp add: wrapped_callback_def subscript_list fake_data_def)

lemma fake_run_with_callback:
  "FakeVQERuntime_run
     (dispatch_args (test_vqe\<lparr>self_callback := Some (Callable True f)\<rparr>) test_converted PNone
        (PStr ''aer_simulator''))
   = Inl (ValueError_fake ''Callback failed'')"
  by (simp add: FakeVQERuntime_run_def dispatch_args_def test_vqe_def fake_check_inputs_def
      fake_check_options_def test_converted_def test_circuit_def test_initial_point_def
      is_list_def is_str_def is_ndarray_def is_int_def is_bool_def is_instance_of_def
      wrap_vqe_callback_def wrapped_callback_fake_data)

subsection \<open>The provider setter\<close>

text \<open>
  A provider whose \<open>runtime\<close> property raises \<open>IBMQNotAuthorizedError\<close> is rejected and
  the stored provider stays; a provider with a runtime service is stored.
\<close>

lemma set_provider_not_authorized:
  "get_runtime p = Inl IBMQNotAuthorizedError \<Longrightarrow>
   set_provider self (Some p) = (Inl (ValueError_provider (str_provider p)), self)"
  by (simp add: set_provider_def hasattr_runtime_def getattr_runtime_def str_of_def)

lemma set_provider_with_runtime:
  "get_runtime p = Inr runtime \<Longrightarrow>
   set_provider self (Some p) = (Inr (), self\<lparr>self_provider := Some p\<rparr>)"
  by (simp add: set_provider_def hasattr_runtime_def getattr_runtime_def)

text \<open>
  Claim C3. Assigning a provider that does not offer the runtime service should raise
  an invalid-provider error (the setter's docstring: "Must be a provider that supports
  the runtime feature"). The code does not for a provider that has no attribute
  \<open>runtime\<close> at all: \<open>hasattr\<close> answers \<open>False\<close>, the answer is thrown away, and the
  provider is stored.
\<close>

theorem set_provider_accepts_provider_without_runtime:
  "set_provider self (Some (Provider s (Inl (AttributeError ''runtime''))))
   = (Inr (), self\<lparr>self_provider := Some (Provider s (Inl (AttributeError ''runtime'')))\<rparr>)"
  by (simp add: set_provider_def hasattr_runtime_def getattr_runtime_def)

text \<open>
  Such a provider only fails at the dispatch, with the \<open>AttributeError\<close> of
  \<open>self.provider.runtime\<close>.
\<close>

lemma dispatch_provider_without_runtime:
  "compute_minimum_eigenvalue test_lib
     (test_vqe\<lparr>self_provider := Some (Provider s (Inl (AttributeError ''runtime'')))\<rparr>)
     test_operator PNone
   = (Inl (AttributeError ''runtime''),
      test_vqe\<lparr>self_provider := Some (Provider s (Inl (AttributeError ''runtime'')))\<rparr>, [])"
proof -
  let ?self = "test_vqe\<lparr>self_provider := Some (Provider s (Inl (AttributeError ''runtime'')))\<rparr>"
  have b: "self_backend ?self = Some test_backend"
    and p: "self_provider ?self = Some (Provider s (Inl (AttributeError ''runtime'')))"
    by (simp_all add: test_vqe_def)
  have n: "(is_PauliSumOp test_operator \<and> test_converted = test_operator) \<or>
           (\<not> is_PauliSumOp test_operator \<and>
            cast_operator test_lib test_operator = Inr test_converted)"
    using cast_test_operator by (simp add: test_operator_def)
  have v: "validate_optimizer_settings (self_optimizer_name ?self)
             (self_optimizer_settings ?self) = Inr ()"
    using validate_test_settings by (simp add: test_vqe_def)
  show ?thesis
    unfolding cme_after_checks [OF b p n v]
    by (simp add: test_backend_def)
qed

subsection \<open>What the dispatch sends\<close>

text \<open>Every call of \<open>run\<close> a dispatch makes carries the arguments \<open>dispatch_args\<close> builds.\<close>

lemma run_calls_of_dispatch:
  assumes r: "RunCall args \<in> set (snd (snd (compute_minimum_eigenvalue lib self operator aux_operators)))"
  obtains op' backend_name where
    "(is_PauliSumOp operator \<and> op' = operator) \<or>
     (\<not> is_PauliSumOp operator \<and> cast_operator lib operator = Inr op')"
    "args = dispatch_args self op' aux_operators backend_name"
proof (cases rule: cme_stages [where self = self and operator = operator and lib = lib])
  case backend_unset
  with r show ?thesis by (simp add: cme_backend_unset)
next
  case provider_unset
  with r show ?thesis by (simp add: cme_provider_unset)
next
  case (cast_fails b p exc)
  with r show ?thesis by (simp add: cme_cast_fails)
next
  case (validation_fails b p op' e)
  with r show ?thesis by (simp add: cme_validation_fails)
next
  case (checks_pass b p op')
  from r have "\<exists>backend_name. args = dispatch_args self op' aux_operators backend_name"
    unfolding cme_after_checks [OF checks_pass]
    by (auto split: sum.splits)
  with checks_pass(3) that show ?thesis by blast
qed

text \<open>
  Once the checks have passed, the backend has given its name and the provider its
  runtime service, the outcome of the dispatch is the outcome of \<open>run\<close> on the arguments
  \<open>dispatch_args\<close> builds. The runtime is any function of its arguments, so this fixes
  what the dispatch hands to it.
\<close>

lemma cme_sends:
  assumes "self_backend self = Some b"
    and "self_provider self = Some p"
    and "(is_PauliSumOp operator \<and> op' = operator) \<or>
         (\<not> is_PauliSumOp operator \<and> cast_operator lib operator = Inr op')"
    and "validate_optimizer_settings (self_optimizer_name self)
           (self_optimizer_settings self) = Inr ()"
    and nm: "call_name b = Inr backend_name"
    and rt: "get_runtime p = Inr runtime"
  shows "compute_minimum_eigenvalue lib self operator aux_operators =
     (case call_run runtime (dispatch_args self op' aux_operators backend_name) of
        Inl e \<Rightarrow>
          (Inl e, self, [RunCall (dispatch_args self op' aux_operators backend_name)])
      | Inr job \<Rightarrow>
          (call_result job, self,
           [RunCall (dispatch_args self op' aux_operators backend_name),
            ResultCall job]))"
  unfolding cme_after_checks [OF assms(1-4)] by (simp add: nm rt)

text \<open>The conversion of an operator, call by call.\<close>

lemma cast_operator_converts:
  assumes "get_primitive operator = Inr p" and "SparsePauliOp lib p = Inr sp"
    and "get_coeff operator = Inr c"
  shows "cast_operator lib operator = PauliSumOp lib sp c"
  using assms by (simp add: cast_operator_def)

lemma cast_operator_raises:
  assumes "(\<exists>e. get_primitive operator = Inl e) \<or>
    (\<exists>p. get_primitive operator = Inr p \<and>
       ((\<exists>e. SparsePauliOp lib p = Inl e) \<or>
        (\<exists>sp. SparsePauliOp lib p = Inr sp \<and>
           ((\<exists>e. get_coeff operator = Inl e) \<or>
            (\<exists>c. get_coeff operator = Inr c \<and> (\<exists>e. PauliSumOp lib sp c = Inl e))))))"
  shows "\<exists>exc. cast_operator lib operator = Inl exc"
  using assms by (auto simp: cast_operator_def)

text \<open>
  The fake runtime tells the two initial points apart: it accepts the string
  \<open>'random'\<close> and rejects \<open>None\<close>.
\<close>

lemma fake_run_rejects_None:
  "FakeVQERuntime_run
     ((dispatch_args test_vqe test_converted PNone (PStr ''aer_simulator''))
        \<lparr>arg_inputs :=
           (arg_inputs (dispatch_args test_vqe test_converted PNone (PStr ''aer_simulator'')))
             \<lparr>inputs_initial_point := PNone\<rparr>\<rparr>)
   = Inl (ValueError_fake ''initial_point'')"
  by (simp add: FakeVQERuntime_run_def dispatch_args_def test_vqe_def fake_check_inputs_def
      test_converted_def test_circuit_def is_list_def is_str_def is_ndarray_def
      is_instance_of_def)

text \<open>
  Claim C6. When the dispatch reaches the remote call (backend and provider set, the
  operator normalised, the settings accepted, the backend's name and the provider's
  runtime service read), the outcome of the dispatch is the outcome of calling \<open>run\<close> on
  arguments whose input bundle holds, as initial point, the string \<open>'random'\<close> if the
  stored initial point is \<open>None\<close> and the stored initial point itself otherwise. And in
  every dispatch whatever, each call of \<open>run\<close> made carries that initial point.
\<close>

theorem dispatch_initial_point:
  "(self_backend self = Some b \<longrightarrow> self_provider self = Some p \<longrightarrow>
      ((is_PauliSumOp operator \<and> op' = operator) \<or>
       (\<not> is_PauliSumOp operator \<and> cast_operator lib operator = Inr op')) \<longrightarrow>
      validate_optimizer_settings (self_optimizer_name self) (self_optimizer_settings self)
        = Inr () \<longrightarrow>
      call_name b = Inr backend_name \<longrightarrow>
      get_runtime p = Inr runtime \<longrightarrow>
      (\<exists>args.
         inputs_initial_point (arg_inputs args)
           = (if self_initial_point self = PNone then PStr ''random''
              else self_initial_point self) \<and>
         compute_minimum_eigenvalue lib self operator aux_operators
           = (case call_run runtime args of
                Inl e \<Rightarrow> (Inl e, self, [RunCall args])
              | Inr job \<Rightarrow> (call_result job, self, [RunCall args, ResultCall job])))) \<and>
   (\<forall>args. RunCall args
             \<in> set (snd (snd (compute_minimum_eigenvalue lib self operator aux_operators)))
           \<longrightarrow> inputs_initial_point (arg_inputs args)
                 = (if self_initial_point self = PNone then PStr ''random''
                    else self_initial_point self))"
proof (intro conjI impI allI)
  assume "self_backend self = Some b" and "self_provider self = Some p"
    and "(is_PauliSumOp operator \<and> op' = operator) \<or>
         (\<not> is_PauliSumOp operator \<and> cast_operator lib operator = Inr op')"
    and "validate_optimizer_settings (self_optimizer_name self) (self_optimizer_settings self)
           = Inr ()"
    and "call_name b = Inr backend_name" and "get_runtime p = Inr runtime"
  then have "compute_minimum_eigenvalue lib self operator aux_operators =
     (case call_run runtime (dispatch_args self op' aux_operators backend_name) of
        Inl e \<Rightarrow>
          (Inl e, self, [RunCall (dispatch_args self op' aux_operators backend_name)])
      | Inr job \<Rightarrow>
          (call_result job, self,
           [RunCall (dispatch_args self op' aux_operators backend_name),
            ResultCall job]))"
    by (rule cme_sends)
  moreover have "inputs_initial_point
       (arg_inputs (dispatch_args self op' aux_operators backend_name))
     = (if self_initial_point self = PNone then PStr ''random''
        else self_initial_point self)"
    by (simp add: dispatch_args_def)
  ultimately show "\<exists>args.
         inputs_initial_point (arg_inputs args)
           = (if self_initial_point self = PNone then PStr ''random''
              else self_initial_point self) \<and>
         compute_minimum_eigenvalue lib self operator aux_operators
           = (case call_run runtime args of
                Inl e \<Rightarrow> (Inl e, self, [RunCall args])
              | Inr job \<Rightarrow> (call_result job, self, [RunCall args, ResultCall job]))"
    by blast
next
  fix args
  assume "RunCall args
            \<in> set (snd (snd (compute_minimum_eigenvalue lib self operator aux_operators)))"
  then show "inputs_initial_point (arg_inputs args)
                 = (if self_initial_point self = PNone then PStr ''random''
                    else self_initial_point self)"
    by (elim run_calls_of_dispatch) (simp add: dispatch_args_def)
qed

text \<open>The facts of the standard use case that let it reach the remote call.\<close>

lemma test_reaches_call:
  shows "self_backend (test_vqe\<lparr>self_initial_point := ip\<rparr>) = Some test_backend"
    and "self_provider (test_vqe\<lparr>self_initial_point := ip\<rparr>) = Some FakeRuntimeProvider"
    and "validate_optimizer_settings
           (self_optimizer_name (test_vqe\<lparr>self_initial_point := ip\<rparr>))
           (self_optimizer_settings (test_vqe\<lparr>self_initial_point := ip\<rparr>)) = Inr ()"
    and "call_name test_backend = Inr (PStr ''aer_simulator'')"
    and "get_runtime FakeRuntimeProvider = Inr (Runtime FakeVQERuntime_run)"
  using validate_test_settings
  by (simp_all add: test_vqe_def test_backend_def FakeRuntimeProvider_def)

theorem dispatch_initial_point_witness:
  "self_initial_point (test_vqe\<lparr>self_initial_point := PNone\<rparr>) = PNone \<and>
   (\<exists>args.
      inputs_initial_point (arg_inputs args) = PStr ''random'' \<and>
      compute_minimum_eigenvalue test_lib (test_vqe\<lparr>self_initial_point := PNone\<rparr>)
          test_operator PNone
        = (case FakeVQERuntime_run args of
             Inl e \<Rightarrow> (Inl e, test_vqe\<lparr>self_initial_point := PNone\<rparr>, [RunCall args])
           | Inr job \<Rightarrow>
               (call_result job, test_vqe\<lparr>self_initial_point := PNone\<rparr>,
                [RunCall args, ResultCall job]))) \<and>
   fst (compute_minimum_eigenvalue test_lib (test_vqe\<lparr>self_initial_point := PNone\<rparr>)
          test_operator PNone) = Inr PNone \<and>
   self_initial_point (test_vqe\<lparr>self_initial_point := test_initial_point\<rparr>)
     = test_initial_point \<and>
   test_initial_point \<noteq> PNone \<and>
   (\<exists>args.
      inputs_initial_point (arg_inputs args) = test_initial_point \<and>
      compute_minimum_eigenvalue test_lib
          (test_vqe\<lparr>self_initial_point := test_initial_point\<rparr>) test_operator PNone
        = (case FakeVQERuntime_run args of
             Inl e \<Rightarrow>
               (Inl e, test_vqe\<lparr>self_initial_point := test_initial_point\<rparr>, [RunCall args])
           | Inr job \<Rightarrow>
               (call_result job, test_vqe\<lparr>self_initial_point := test_initial_point\<rparr>,
                [RunCall args, ResultCall job])))"
proof -
  have n: "\<And>ip. (is_PauliSumOp test_operator \<and> test_converted = test_operator) \<or>
           (\<not> is_PauliSumOp test_operator \<and>
            cast_operator test_lib test_operator = Inr test_converted)"
    using cast_test_operator by (simp add: test_operator_def)
  have ne: "test_initial_point \<noteq> PNone" by (simp add: test_initial_point_def)
  have r: "fst (compute_minimum_eigenvalue test_lib (test_vqe\<lparr>self_initial_point := PNone\<rparr>)
          test_operator PNone) = Inr PNone"
    using test_dispatch [of test_operator PNone] by simp
  note a = dispatch_initial_point
      [where self = "test_vqe\<lparr>self_initial_point := PNone\<rparr>" and b = test_backend
         and p = FakeRuntimeProvider and operator = test_operator and op' = test_converted
         and lib = test_lib and backend_name = "PStr ''aer_simulator''"
         and runtime = "Runtime FakeVQERuntime_run" and aux_operators = PNone,
       THEN conjunct1, rule_format,
       OF test_reaches_call(1) test_reaches_call(2) n test_reaches_call(3)
          test_reaches_call(4) test_reaches_call(5)]
  note b = dispatch_initial_point
      [where self = "test_vqe\<lparr>self_initial_point := test_initial_point\<rparr>"
         and b = test_backend
         and p = FakeRuntimeProvider and operator = test_operator and op' = test_converted
         and lib = test_lib and backend_name = "PStr ''aer_simulator''"
         and runtime = "Runtime FakeVQERuntime_run" and aux_operators = PNone,
       THEN conjunct1, rule_format,
       OF test_reaches_call(1) test_reaches_call(2) n test_reaches_call(3)
          test_reaches_call(4) test_reaches_call(5)]
  have a': "\<exists>args.
      inputs_initial_point (arg_inputs args) = PStr ''random'' \<and>
      compute_minimum_eigenvalue test_lib (test_vqe\<lparr>self_initial_point := PNone\<rparr>)
          test_operator PNone
        = (case FakeVQERuntime_run args of
             Inl e \<Rightarrow> (Inl e, test_vqe\<lparr>self_initial_point := PNone\<rparr>, [RunCall args])
           | Inr job \<Rightarrow>
               (call_result job, test_vqe\<lparr>self_initial_point := PNone\<rparr>,
                [RunCall args, ResultCall job]))"
    using a by simp
  have b': "\<exists>args.
      inputs_initial_point (arg_inputs args) = test_initial_point \<and>
      compute_minimum_eigenvalue test_lib
          (test_vqe\<lparr>self_initial_point := test_initial_point\<rparr>) test_operator PNone
        = (case FakeVQERuntime_run args of
             Inl e \<Rightarrow>
               (Inl e, test_vqe\<lparr>self_initial_point := test_initial_point\<rparr>, [RunCall args])
           | Inr job \<Rightarrow>
               (call_result job, test_vqe\<lparr>self_initial_point := test_initial_point\<rparr>,
                [RunCall args, ResultCall job]))"
    using b ne by simp
  show ?thesis using a' b' r ne by simp
qed

text \<open>
  Claim C4. With backend and provider set: an operator that is a \<open>PauliSumOp\<close> already
  is handed to \<open>run\<close> as it is; any other operator is handed on as the result of
  \<open>PauliSumOp(SparsePauliOp(operator.primitive), operator.coeff)\<close>, built from its
  primitive and its coefficient (both whenever the dispatch reaches the remote call:
  settings accepted, backend name and runtime service read); and when reading the
  primitive, \<open>SparsePauliOp\<close>, reading the coefficient or \<open>PauliSumOp\<close> raises, the
  dispatch raises the error that names the operator's type, a \<open>ValueError\<close> in Python,
  and sends nothing.
\<close>

theorem operator_normalised_before_dispatch:
  assumes backend_set: "self_backend self = Some b"
    and provider_set: "self_provider self = Some pr"
  shows
  "(is_PauliSumOp operator \<longrightarrow>
      validate_optimizer_settings (self_optimizer_name self) (self_optimizer_settings self)
        = Inr () \<longrightarrow>
      call_name b = Inr backend_name \<longrightarrow>
      get_runtime pr = Inr runtime \<longrightarrow>
      (\<exists>args.
         inputs_operator (arg_inputs args) = operator \<and>
         compute_minimum_eigenvalue lib self operator aux_operators
           = (case call_run runtime args of
                Inl e \<Rightarrow> (Inl e, self, [RunCall args])
              | Inr job \<Rightarrow> (call_result job, self, [RunCall args, ResultCall job])))) \<and>
   (\<not> is_PauliSumOp operator \<longrightarrow>
      get_primitive operator = Inr p \<longrightarrow>
      SparsePauliOp lib p = Inr primitive \<longrightarrow>
      get_coeff operator = Inr c \<longrightarrow>
      PauliSumOp lib primitive c = Inr converted \<longrightarrow>
      validate_optimizer_settings (self_optimizer_name self) (self_optimizer_settings self)
        = Inr () \<longrightarrow>
      call_name b = Inr backend_name \<longrightarrow>
      get_runtime pr = Inr runtime \<longrightarrow>
      (\<exists>args.
         inputs_operator (arg_inputs args) = converted \<and>
         compute_minimum_eigenvalue lib self operator aux_operators
           = (case call_run runtime args of
                Inl e \<Rightarrow> (Inl e, self, [RunCall args])
              | Inr job \<Rightarrow> (call_result job, self, [RunCall args, ResultCall job])))) \<and>
   (\<not> is_PauliSumOp operator \<longrightarrow>
      ((\<exists>e. get_primitive operator = Inl e) \<or>
       (\<exists>p. get_primitive operator = Inr p \<and>
          ((\<exists>e. SparsePauliOp lib p = Inl e) \<or>
           (\<exists>sp. SparsePauliOp lib p = Inr sp \<and>
              ((\<exists>e. get_coeff operator = Inl e) \<or>
               (\<exists>c. get_coeff operator = Inr c \<and>
                  (\<exists>e. PauliSumOp lib sp c = Inl e))))))) \<longrightarrow>
      compute_minimum_eigenvalue lib self operator aux_operators
        = (Inl (ValueError_operator_type (type_name operator)), self, []))"
proof (intro conjI impI)
  assume is_op: "is_PauliSumOp operator"
    and v: "validate_optimizer_settings (self_optimizer_name self)
              (self_optimizer_settings self) = Inr ()"
    and nm: "call_name b = Inr backend_name" and rt: "get_runtime pr = Inr runtime"
  from is_op have n: "(is_PauliSumOp operator \<and> operator = operator) \<or>
      (\<not> is_PauliSumOp operator \<and> cast_operator lib operator = Inr operator)"
    by simp
  have "inputs_operator (arg_inputs (dispatch_args self operator aux_operators backend_name))
          = operator"
    by (simp add: dispatch_args_def)
  with cme_sends [OF backend_set provider_set n v nm rt]
  show "\<exists>args.
         inputs_operator (arg_inputs args) = operator \<and>
         compute_minimum_eigenvalue lib self operator aux_operators
           = (case call_run runtime args of
                Inl e \<Rightarrow> (Inl e, self, [RunCall args])
              | Inr job \<Rightarrow> (call_result job, self, [RunCall args, ResultCall job]))"
    by blast
next
  assume no_op: "\<not> is_PauliSumOp operator"
    and steps: "get_primitive operator = Inr p" "SparsePauliOp lib p = Inr primitive"
      "get_coeff operator = Inr c" "PauliSumOp lib primitive c = Inr converted"
    and v: "validate_optimizer_settings (self_optimizer_name self)
              (self_optimizer_settings self) = Inr ()"
    and nm: "call_name b = Inr backend_name" and rt: "get_runtime pr = Inr runtime"
  from steps have "cast_operator lib operator = Inr converted"
    by (simp add: cast_operator_converts)
  with no_op have n: "(is_PauliSumOp operator \<and> converted = operator) \<or>
      (\<not> is_PauliSumOp operator \<and> cast_operator lib operator = Inr converted)"
    by simp
  have "inputs_operator (arg_inputs (dispatch_args self converted aux_operators backend_name))
          = converted"
    by (simp add: dispatch_args_def)
  with cme_sends [OF backend_set provider_set n v nm rt]
  show "\<exists>args.
         inputs_operator (arg_inputs args) = converted \<and>
         compute_minimum_eigenvalue lib self operator aux_operators
           = (case call_run runtime args of
                Inl e \<Rightarrow> (Inl e, self, [RunCall args])
              | Inr job \<Rightarrow> (call_result job, self, [RunCall args, ResultCall job]))"
    by blast
next
  assume no_op: "\<not> is_PauliSumOp operator"
    and "(\<exists>e. get_primitive operator = Inl e) \<or>
       (\<exists>p. get_primitive operator = Inr p \<and>
          ((\<exists>e. SparsePauliOp lib p = Inl e) \<or>
           (\<exists>sp. SparsePauliOp lib p = Inr sp \<and>
              ((\<exists>e. get_coeff operator = Inl e) \<or>
               (\<exists>c. get_coeff operator = Inr c \<and>
                  (\<exists>e. PauliSumOp lib sp c = Inl e))))))"
  then obtain exc where "cast_operator lib operator = Inl exc"
    using cast_operator_raises by blast
  with no_op show "compute_minimum_eigenvalue lib self operator aux_operators
        = (Inl (ValueError_operator_type (type_name operator)), self, [])"
    by (simp add: cme_cast_fails [OF backend_set provider_set])
qed

text \<open>
  Said without the remote call: in every configuration, a dispatch of an operator that
  converts behaves as the dispatch of the converted operator, provided the library's
  \<open>PauliSumOp\<close> returned a \<open>PauliSumOp\<close>.
\<close>

lemma dispatch_of_converted:
  assumes "\<not> is_PauliSumOp operator"
    and "get_primitive operator = Inr p" and "SparsePauliOp lib p = Inr primitive"
    and "get_coeff operator = Inr c" and "PauliSumOp lib primitive c = Inr converted"
    and "is_PauliSumOp converted"
  shows "compute_minimum_eigenvalue lib self operator aux_operators
           = compute_minimum_eigenvalue lib self converted aux_operators"
proof -
  have "cast_operator lib operator = Inr converted"
    using assms(2-5) by (simp add: cast_operator_converts)
  then have "(if \<not> is_PauliSumOp operator
               then (case cast_operator lib operator of
                       Inl exc \<Rightarrow> Inl (ValueError_operator_type (type_name operator))
                     | Inr converted \<Rightarrow> Inr converted)
               else Inr operator)
           = (if \<not> is_PauliSumOp converted
               then (case cast_operator lib converted of
                       Inl exc \<Rightarrow> Inl (ValueError_operator_type (type_name converted))
                     | Inr converted \<Rightarrow> Inr converted)
               else Inr converted)"
    using assms(1,6) by simp
  then show ?thesis
    unfolding compute_minimum_eigenvalue_def by (rule arg_cong)
qed

text \<open>
  The three cases on the standard use case: an operator that is a \<open>PauliSumOp\<close>, the
  operator of the test with its four conversion steps, and an object without a primitive.
\<close>

theorem operator_normalised_before_dispatch_witness:
  "self_backend test_vqe = Some test_backend \<and>
   self_provider test_vqe = Some FakeRuntimeProvider \<and>
   is_PauliSumOp test_converted \<and>
   (\<exists>args.
      inputs_operator (arg_inputs args) = test_converted \<and>
      compute_minimum_eigenvalue test_lib test_vqe test_converted PNone
        = (case FakeVQERuntime_run args of
             Inl e \<Rightarrow> (Inl e, test_vqe, [RunCall args])
           | Inr job \<Rightarrow> (call_result job, test_vqe, [RunCall args, ResultCall job]))) \<and>
   \<not> is_PauliSumOp test_operator \<and>
   get_primitive test_operator = Inr (PObj [''Pauli'', ''object''] ''ZIZ'') \<and>
   SparsePauliOp test_lib (PObj [''Pauli'', ''object''] ''ZIZ'')
     = Inr (PObj [''SparsePauliOp'', ''object''] ''sparse'') \<and>
   get_coeff test_operator = Inr (PObj [''float'', ''object''] ''1.0'') \<and>
   PauliSumOp test_lib (PObj [''SparsePauliOp'', ''object''] ''sparse'')
       (PObj [''float'', ''object''] ''1.0'')
     = Inr test_converted \<and>
   (\<exists>args.
      inputs_operator (arg_inputs args) = test_converted \<and>
      compute_minimum_eigenvalue test_lib test_vqe test_operator PNone
        = (case FakeVQERuntime_run args of
             Inl e \<Rightarrow> (Inl e, test_vqe, [RunCall args])
           | Inr job \<Rightarrow> (call_result job, test_vqe, [RunCall args, ResultCall job]))) \<and>
   fst (compute_minimum_eigenvalue test_lib test_vqe test_operator PNone) = Inr PNone \<and>
   \<not> is_PauliSumOp test_not_an_operator \<and>
   get_primitive test_not_an_operator = Inl (AttributeError ''primitive'') \<and>
   compute_minimum_eigenvalue test_lib test_vqe test_not_an_operator PNone
     = (Inl (ValueError_operator_type ''int''), test_vqe, [])"
proof -
  have same: "test_vqe\<lparr>self_initial_point := test_initial_point\<rparr> = test_vqe"
    by (simp add: test_vqe_def)
  have b: "self_backend test_vqe = Some test_backend"
    and pr: "self_provider test_vqe = Some FakeRuntimeProvider"
    and v: "validate_optimizer_settings (self_optimizer_name test_vqe)
              (self_optimizer_settings test_vqe) = Inr ()"
    using test_reaches_call(1-3) [of test_initial_point] by (simp_all add: same)
  note nm = test_reaches_call(4) and rt = test_reaches_call(5)
  have is_op: "is_PauliSumOp test_converted" by (simp add: test_converted_def)
  have no_op: "\<not> is_PauliSumOp test_operator" "\<not> is_PauliSumOp test_not_an_operator"
    by (simp_all add: test_operator_def test_not_an_operator_def)
  have steps: "get_primitive test_operator = Inr (PObj [''Pauli'', ''object''] ''ZIZ'')"
    "SparsePauliOp test_lib (PObj [''Pauli'', ''object''] ''ZIZ'')
       = Inr (PObj [''SparsePauliOp'', ''object''] ''sparse'')"
    "get_coeff test_operator = Inr (PObj [''float'', ''object''] ''1.0'')"
    "PauliSumOp test_lib (PObj [''SparsePauliOp'', ''object''] ''sparse'')
         (PObj [''float'', ''object''] ''1.0'')
       = Inr test_converted"
    by (simp_all add: test_operator_def test_lib_def is_instance_of_def test_converted_def)
  have fails: "get_primitive test_not_an_operator = Inl (AttributeError ''primitive'')"
    and ty: "type_name test_not_an_operator = ''int''"
    by (simp_all add: test_not_an_operator_def)
  note t = operator_normalised_before_dispatch [OF b pr]
  have c1: "\<exists>args.
      inputs_operator (arg_inputs args) = test_converted \<and>
      compute_minimum_eigenvalue test_lib test_vqe test_converted PNone
        = (case FakeVQERuntime_run args of
             Inl e \<Rightarrow> (Inl e, test_vqe, [RunCall args])
           | Inr job \<Rightarrow> (call_result job, test_vqe, [RunCall args, ResultCall job]))"
    using t [where operator = test_converted and lib = test_lib
               and backend_name = "PStr ''aer_simulator''"
               and runtime = "Runtime FakeVQERuntime_run" and aux_operators = PNone,
             THEN conjunct1, rule_format, OF is_op v nm rt]
    by simp
  have c2: "\<exists>args.
      inputs_operator (arg_inputs args) = test_converted \<and>
      compute_minimum_eigenvalue test_lib test_vqe test_operator PNone
        = (case FakeVQERuntime_run args of
             Inl e \<Rightarrow> (Inl e, test_vqe, [RunCall args])
           | Inr job \<Rightarrow> (call_result job, test_vqe, [RunCall args, ResultCall job]))"
    using t [where operator = test_operator and lib = test_lib
               and backend_name = "PStr ''aer_simulator''"
               and runtime = "Runtime FakeVQERuntime_run" and aux_operators = PNone,
             THEN conjunct2, THEN conjunct1, rule_format, OF no_op(1) steps v nm rt]
    by simp
  have c3: "compute_minimum_eigenvalue test_lib test_vqe test_not_an_operator PNone
     = (Inl (ValueError_operator_type ''int''), test_vqe, [])"
    using t [where operator = test_not_an_operator and lib = test_lib
               and aux_operators = PNone,
             THEN conjunct2, THEN conjunct2, rule_format, OF no_op(2)]
      fails ty
    by simp
  have r: "fst (compute_minimum_eigenvalue test_lib test_vqe test_operator PNone) = Inr PNone"
    using test_dispatch [of test_operator test_initial_point] by (simp add: same)
  show ?thesis
    using b pr is_op no_op steps fails c1 c2 c3 r by simp
qed

subsection \<open>The optimizer name\<close>

text \<open>
  The constructor, once the provider argument is \<open>None\<close> or has passed its setter:
  only the check of the optimizer name is left.
\<close>

lemma init_after_provider:
  assumes "\<not> isl (hasattr_runtime provider)"
  shows "init ansatz name settings initial_point provider backend shots rem callback =
     (if name \<notin> set [PStr ''SPSA'', PStr ''QN-SPSA'']
      then Inl NotImplementedError_optimizer
      else Inr \<lparr>self_program_name = PStr ''vqe'',
                self_provider = provider,
                self_ansatz = ansatz,
                self_optimizer_name = name,
                self_optimizer_settings = (case settings of None \<Rightarrow> [] | Some s \<Rightarrow> s),
                self_backend = backend,
                self_initial_point = initial_point,
                self_shots = shots,
                self_readout_error_mitigation = rem,
                self_callback = callback,
                self_optimizer = None\<rparr>)"
proof (cases provider)
  case None
  then show ?thesis
    by (simp add: init_def Let_def set_optimizer_name_def)
next
  case (Some p)
  from assms obtain b where "hasattr_runtime provider = Inr b"
    by (cases "hasattr_runtime provider") auto
  with Some show ?thesis
    by (simp add: init_def Let_def set_provider_def set_optimizer_name_def)
qed

lemma init_rejects_name:
  assumes "name \<notin> set [PStr ''SPSA'', PStr ''QN-SPSA'']"
  shows "isl (init ansatz name settings initial_point provider backend shots rem callback)"
proof (cases "hasattr_runtime provider")
  case (Inl e)
  then have "provider \<noteq> None"
    by (cases provider) (simp_all add: hasattr_runtime_def getattr_runtime_def)
  with Inl show ?thesis
    by (simp add: init_def Let_def set_provider_def)
next
  case (Inr b)
  then have "\<not> isl (hasattr_runtime provider)" by simp
  from init_after_provider [OF this] assms show ?thesis by simp
qed

text \<open>
  Claim C7. Assigning a name other than \<open>'SPSA'\<close> and \<open>'QN-SPSA'\<close> raises
  \<open>NotImplementedError\<close> and leaves the stored name as it was; the constructor, given
  such a name, never returns an object, and raises that same error as soon as the
  provider argument has been accepted (a rejected provider raises first, before the name
  is looked at). The two supported names are stored, by the setter and by the
  constructor.
\<close>

theorem optimizer_name_is_checked:
  "(name \<notin> set [PStr ''SPSA'', PStr ''QN-SPSA''] \<longrightarrow>
      set_optimizer_name self name = (Inl NotImplementedError_optimizer, self) \<and>
      isl (init ansatz name settings initial_point provider backend shots rem callback) \<and>
      (\<not> isl (hasattr_runtime provider) \<longrightarrow>
         init ansatz name settings initial_point provider backend shots rem callback
           = Inl NotImplementedError_optimizer)) \<and>
   (name \<in> set [PStr ''SPSA'', PStr ''QN-SPSA''] \<longrightarrow>
      set_optimizer_name self name = (Inr (), self\<lparr>self_optimizer_name := name\<rparr>) \<and>
      (\<not> isl (hasattr_runtime provider) \<longrightarrow>
         (\<exists>s. init ansatz name settings initial_point provider backend shots rem callback
                = Inr s \<and> self_optimizer_name s = name)))"
proof (intro conjI impI)
  assume "name \<notin> set [PStr ''SPSA'', PStr ''QN-SPSA'']"
  then show "set_optimizer_name self name = (Inl NotImplementedError_optimizer, self)"
    by (simp add: set_optimizer_name_def)
next
  assume "name \<notin> set [PStr ''SPSA'', PStr ''QN-SPSA'']"
  then show "isl (init ansatz name settings initial_point provider backend shots rem callback)"
    by (rule init_rejects_name)
next
  assume "name \<notin> set [PStr ''SPSA'', PStr ''QN-SPSA'']"
    and "\<not> isl (hasattr_runtime provider)"
  then show "init ansatz name settings initial_point provider backend shots rem callback
           = Inl NotImplementedError_optimizer"
    by (simp add: init_after_provider)
next
  assume "name \<in> set [PStr ''SPSA'', PStr ''QN-SPSA'']"
  then show "set_optimizer_name self name = (Inr (), self\<lparr>self_optimizer_name := name\<rparr>)"
    by (simp add: set_optimizer_name_def)
next
  assume "name \<in> set [PStr ''SPSA'', PStr ''QN-SPSA'']"
    and "\<not> isl (hasattr_runtime provider)"
  then show "\<exists>s. init ansatz name settings initial_point provider backend shots rem callback
                = Inr s \<and> self_optimizer_name s = name"
    by (simp add: init_after_provider)
qed

theorem optimizer_name_is_checked_witness:
  "PStr ''ADAM'' \<notin> set [PStr ''SPSA'', PStr ''QN-SPSA''] \<and>
   \<not> isl (hasattr_runtime (Some FakeRuntimeProvider)) \<and>
   set_optimizer_name test_vqe (PStr ''ADAM'') = (Inl NotImplementedError_optimizer, test_vqe) \<and>
   init test_circuit (PStr ''ADAM'') (Some test_settings) test_initial_point
     (Some FakeRuntimeProvider) (Some test_backend) (PInt 1024) (PBool True) None
     = Inl NotImplementedError_optimizer \<and>
   PStr ''QN-SPSA'' \<in> set [PStr ''SPSA'', PStr ''QN-SPSA''] \<and>
   set_optimizer_name test_vqe (PStr ''QN-SPSA'')
     = (Inr (), test_vqe\<lparr>self_optimizer_name := PStr ''QN-SPSA''\<rparr>) \<and>
   (\<exists>s. init test_circuit (PStr ''QN-SPSA'') (Some test_settings) test_initial_point
           (Some FakeRuntimeProvider) (Some test_backend) (PInt 1024) (PBool True) None
         = Inr s \<and> self_optimizer_name s = PStr ''QN-SPSA'')"
proof -
  have h: "\<not> isl (hasattr_runtime (Some FakeRuntimeProvider))"
    by (simp add: hasattr_runtime_def getattr_runtime_def FakeRuntimeProvider_def)
  show ?thesis
    using h
      optimizer_name_is_checked [of "PStr ''ADAM''" test_vqe test_circuit
        "Some test_settings" test_initial_point "Some FakeRuntimeProvider"
        "Some test_backend" "PInt 1024" "PBool True" None]
      optimizer_name_is_checked [of "PStr ''QN-SPSA''" test_vqe test_circuit
        "Some test_settings" test_initial_point "Some FakeRuntimeProvider"
        "Some test_backend" "PInt 1024" "PBool True" None]
    by simp
qed

subsection \<open>The remote call\<close>

text \<open>
  What the dispatch does once the validation has returned. For a constructed object,
  however it has been configured since, with backend and provider set and an operator
  that is or converts to a \<open>PauliSumOp\<close>: once the backend has given its name and the
  provider its runtime service, the dispatch makes exactly one call of \<open>run\<close>, with the
  program identifier \<open>'vqe'\<close>, the inputs and the options holding the backend's name,
  then calls \<open>result\<close> on the job that call returned, and returns that result as it is.
\<close>

lemma dispatch_submits_one_call:
  assumes constructed:
      "init ansatz name settings initial_point provider backend shots rem callback = Inr s0"
    and configured: "self = apply_ops lib s0 ops"
    and backend_set: "self_backend self = Some b"
    and provider_set: "self_provider self = Some p"
    and convertible:
      "(is_PauliSumOp operator \<and> op' = operator) \<or>
       (\<not> is_PauliSumOp operator \<and> cast_operator lib operator = Inr op')"
    and settings_valid:
      "validate_optimizer_settings (self_optimizer_name self) (self_optimizer_settings self)
         = Inr ()"
    and backend_named: "call_name b = Inr backend_name"
    and has_runtime: "get_runtime p = Inr runtime"
    and sent:
      "args = \<lparr>arg_program_id = PStr ''vqe'',
               arg_inputs =
                 \<lparr>inputs_operator = op',
                  inputs_aux_operators = aux_operators,
                  inputs_ansatz = self_ansatz self,
                  inputs_optimizer = self_optimizer_name self,
                  inputs_optimizer_params = self_optimizer_settings self,
                  inputs_initial_point =
                    (if self_initial_point self = PNone then PStr ''random''
                     else self_initial_point self),
                  inputs_shots = self_shots self,
                  inputs_readout_error_mitigation = self_readout_error_mitigation self\<rparr>,
               arg_options = \<lparr>options_backend_name = backend_name\<rparr>,
               arg_callback = wrap_vqe_callback self\<rparr>"
    and job_returned: "call_run runtime args = Inr job"
    and result_returned: "call_result job = Inr result"
  shows "compute_minimum_eigenvalue lib self operator aux_operators
           = (Inr result, self, [RunCall args, ResultCall job])"
proof -
  have "self_program_name self = PStr ''vqe''"
    using constructed configured
    by (simp add: apply_ops_program_name init_program_name)
  then have a: "dispatch_args self op' aux_operators backend_name = args"
    by (simp add: dispatch_args_def sent)
  show ?thesis
    unfolding cme_after_checks [OF backend_set provider_set convertible settings_valid]
    by (simp add: backend_named has_runtime a job_returned result_returned)
qed

text \<open>The standard use case of the tests is such a dispatch.\<close>

lemma dispatch_submits_one_call_standard_case:
  "init test_circuit (PStr ''SPSA'') (Some test_settings) test_initial_point
     (Some FakeRuntimeProvider) (Some test_backend) (PInt 1024) (PBool True) None
     = Inr test_vqe \<and>
   self_backend test_vqe = Some test_backend \<and>
   self_provider test_vqe = Some FakeRuntimeProvider \<and>
   \<not> is_PauliSumOp test_operator \<and>
   cast_operator test_lib test_operator = Inr test_converted \<and>
   validate_optimizer_settings (self_optimizer_name test_vqe) (self_optimizer_settings test_vqe)
     = Inr () \<and>
   call_name test_backend = Inr (PStr ''aer_simulator'') \<and>
   get_runtime FakeRuntimeProvider = Inr (Runtime FakeVQERuntime_run) \<and>
   call_result FakeJob = Inr PNone \<and>
   compute_minimum_eigenvalue test_lib test_vqe test_operator PNone
     = (Inr PNone, test_vqe,
        [RunCall
           \<lparr>arg_program_id = PStr ''vqe'',
            arg_inputs =
              \<lparr>inputs_operator = test_converted,
               inputs_aux_operators = PNone,
               inputs_ansatz = test_circuit,
               inputs_optimizer = PStr ''SPSA'',
               inputs_optimizer_params = test_settings,
               inputs_initial_point = test_initial_point,
               inputs_shots = PInt 1024,
               inputs_readout_error_mitigation = PBool True\<rparr>,
            arg_options = \<lparr>options_backend_name = PStr ''aer_simulator''\<rparr>,
            arg_callback = None\<rparr>,
         ResultCall FakeJob])"
proof -
  let ?args = "\<lparr>arg_program_id = PStr ''vqe'',
            arg_inputs =
              \<lparr>inputs_operator = test_converted,
               inputs_aux_operators = PNone,
               inputs_ansatz = test_circuit,
               inputs_optimizer = PStr ''SPSA'',
               inputs_optimizer_params = test_settings,
               inputs_initial_point = test_initial_point,
               inputs_shots = PInt 1024,
               inputs_readout_error_mitigation = PBool True\<rparr>,
            arg_options = \<lparr>options_backend_name = PStr ''aer_simulator''\<rparr>,
            arg_callback = None\<rparr>"
  have configured: "test_vqe = apply_ops test_lib test_vqe []" by simp
  have b: "self_backend test_vqe = Some test_backend"
    and p: "self_provider test_vqe = Some FakeRuntimeProvider"
    by (simp_all add: test_vqe_def)
  have n: "\<not> is_PauliSumOp test_operator" by (simp add: test_operator_def)
  have c: "(is_PauliSumOp test_operator \<and> test_converted = test_operator) \<or>
           (\<not> is_PauliSumOp test_operator \<and>
            cast_operator test_lib test_operator = Inr test_converted)"
    using n cast_test_operator by simp
  have v: "validate_optimizer_settings (self_optimizer_name test_vqe)
             (self_optimizer_settings test_vqe) = Inr ()"
    using validate_test_settings by (simp add: test_vqe_def)
  have nm: "call_name test_backend = Inr (PStr ''aer_simulator'')"
    by (simp add: test_backend_def)
  have rt: "get_runtime FakeRuntimeProvider = Inr (Runtime FakeVQERuntime_run)"
    by (simp add: FakeRuntimeProvider_def)
  have ne: "test_initial_point \<noteq> PNone" by (simp add: test_initial_point_def)
  have sent: "?args = \<lparr>arg_program_id = PStr ''vqe'',
               arg_inputs =
                 \<lparr>inputs_operator = test_converted,
                  inputs_aux_operators = PNone,
                  inputs_ansatz = self_ansatz test_vqe,
                  inputs_optimizer = self_optimizer_name test_vqe,
                  inputs_optimizer_params = self_optimizer_settings test_vqe,
                  inputs_initial_point =
                    (if self_initial_point test_vqe = PNone then PStr ''random''
                     else self_initial_point test_vqe),
                  inputs_shots = self_shots test_vqe,
                  inputs_readout_error_mitigation = self_readout_error_mitigation test_vqe\<rparr>,
               arg_options = \<lparr>options_backend_name = PStr ''aer_simulator''\<rparr>,
               arg_callback = wrap_vqe_callback test_vqe\<rparr>"
    using ne by (simp add: test_vqe_def wrap_vqe_callback_def)
  have same: "test_vqe\<lparr>self_initial_point := test_initial_point\<rparr> = test_vqe"
    by (simp add: test_vqe_def)
  have d: "dispatch_args test_vqe test_converted PNone (PStr ''aer_simulator'') = ?args"
    using ne by (simp add: dispatch_args_def test_vqe_def wrap_vqe_callback_def)
  have run: "call_run (Runtime FakeVQERuntime_run) ?args = Inr FakeJob"
    using fake_run_test_args [of test_initial_point] ne by (simp add: same d)
  have res: "call_result FakeJob = Inr PNone" by (simp add: FakeJob_def)
  show ?thesis
    using dispatch_submits_one_call
        [OF init_test configured b p c v nm rt sent run res]
      init_test b p n cast_test_operator v nm rt res
    by simp
qed


text \<open>
  No configuration with the optimizer \<open>'QN-SPSA'\<close> reaches the remote call: its
  validation raises whatever the settings are, so the dispatch raises and sends nothing.
\<close>

lemma validate_QN_SPSA:
  "validate_optimizer_settings (PStr ''QN-SPSA'') settings = Inl ValueError_list_remove"
  by (simp add: validate_optimizer_settings_def remove_pair_from_allowed)

lemma dispatch_QN_SPSA_raises:
  assumes "self_backend self = Some b" and "self_provider self = Some p"
    and "(is_PauliSumOp operator \<and> op' = operator) \<or>
         (\<not> is_PauliSumOp operator \<and> cast_operator lib operator = Inr op')"
    and "self_optimizer_name self = PStr ''QN-SPSA''"
  shows "compute_minimum_eigenvalue lib self operator aux_operators
           = (Inl ValueError_list_remove, self, [])"
  using assms(4) by (intro cme_validation_fails [OF assms(1-3)]) (simp add: validate_QN_SPSA)

text \<open>
  So the validation returns for \<open>'SPSA'\<close> with allowed keys, and for nothing else.
\<close>

lemma validate_returns_iff:
  "validate_optimizer_settings name settings = Inr () \<longleftrightarrow>
     name = PStr ''SPSA'' \<and> set (keys settings) \<subseteq> set allowed_settings"
proof (cases "name = PStr ''SPSA''")
  case True
  then show ?thesis by (simp add: validate_SPSA)
next
  case False
  then show ?thesis
    by (cases "name = PStr ''QN-SPSA''")
      (simp_all add: validate_QN_SPSA, simp add: validate_optimizer_settings_def)
qed

text \<open>
  Claim C8. Every valid configuration (backend and provider set, a convertible operator,
  settings whose keys are all allowed for the optimizer) should lead to exactly one remote
  call under \<open>'vqe'\<close> whose result is returned. The code does not for the optimizer
  \<open>'QN-SPSA'\<close>: the object of the standard use case, constructed with \<open>'QN-SPSA'\<close> in
  place of \<open>'SPSA'\<close>, has the one setting \<open>'maxiter'\<close>, which is neither
  \<open>'trust_region'\<close> nor \<open>'second_order'\<close>; its dispatch raises the \<open>ValueError\<close> of
  \<open>list.remove\<close> and makes no remote call. This is the defect of claim C1 seen from
  the dispatch.
\<close>

theorem dispatch_QN_SPSA_sends_nothing:
  "init test_circuit (PStr ''QN-SPSA'') (Some test_settings) test_initial_point
     (Some FakeRuntimeProvider) (Some test_backend) (PInt 1024) (PBool True) None
     = Inr (test_vqe\<lparr>self_optimizer_name := PStr ''QN-SPSA''\<rparr>) \<and>
   set (keys test_settings)
     \<subseteq> set allowed_settings - {PStr ''trust_region'', PStr ''second_order''} \<and>
   compute_minimum_eigenvalue test_lib (test_vqe\<lparr>self_optimizer_name := PStr ''QN-SPSA''\<rparr>)
       test_operator PNone
     = (Inl ValueError_list_remove, test_vqe\<lparr>self_optimizer_name := PStr ''QN-SPSA''\<rparr>, [])"
proof -
  let ?self = "test_vqe\<lparr>self_optimizer_name := PStr ''QN-SPSA''\<rparr>"
  have i: "init test_circuit (PStr ''QN-SPSA'') (Some test_settings) test_initial_point
     (Some FakeRuntimeProvider) (Some test_backend) (PInt 1024) (PBool True) None
     = Inr ?self"
    by (simp add: init_def set_provider_def hasattr_runtime_def getattr_runtime_def
        FakeRuntimeProvider_def set_optimizer_name_def test_vqe_def)
  have k: "set (keys test_settings)
     \<subseteq> set allowed_settings - {PStr ''trust_region'', PStr ''second_order''}"
    by (simp add: keys_def test_settings_def allowed_settings_def)
  have b: "self_backend ?self = Some test_backend"
    and p: "self_provider ?self = Some FakeRuntimeProvider"
    and q: "self_optimizer_name ?self = PStr ''QN-SPSA''"
    by (simp_all add: test_vqe_def)
  have n: "(is_PauliSumOp test_operator \<and> test_converted = test_operator) \<or>
           (\<not> is_PauliSumOp test_operator \<and>
            cast_operator test_lib test_operator = Inr test_converted)"
    using cast_test_operator by (simp add: test_operator_def)
  show ?thesis
    using i k dispatch_QN_SPSA_raises [OF b p n q] by simp
qed

subsection \<open>A callback that is false\<close>

text \<open>
  A callable object whose truth value is false is not wrapped: the dispatch sends
  \<open>callback=None\<close>, as it does when no callback is set.
\<close>

lemma wrap_vqe_callback_false:
  "wrap_vqe_callback (self\<lparr>self_callback := Some (Callable False f)\<rparr>) = None"
  by (simp add: wrap_vqe_callback_def)

lemma wrap_vqe_callback_true:
  "wrap_vqe_callback (self\<lparr>self_callback := Some (Callable True f)\<rparr>)
     = Some (wrapped_callback (self\<lparr>self_callback := Some (Callable True f)\<rparr>))"
  by (simp add: wrap_vqe_callback_def)

end
